theory Spec2Isabelle
  imports
    Main
    "HOL-Library.Word"
    "HOL-Library.Char_ord"
    "HOL-Library.List_Lexorder"
begin

section \<open>Go standard-library primitives used by the controllers\<close>

text \<open>
  A Go string is a sequence of bytes; \<^typ>\<open>string\<close> is a list of 8-bit characters, so
  \<open>length\<close> is Go's \<open>len\<close> and list equality is Go's \<open>==\<close> on strings. The order on
  strings of \<open>HOL-Library.List_Lexorder\<close> over \<open>HOL-Library.Char_ord\<close> is the byte-wise
  lexicographic order of Go's \<open><\<close> on strings. The primitives below are the functions of
  the packages \<open>strings\<close>, \<open>strconv\<close> and \<open>sort\<close> that the source calls, each with a
  one-byte separator where the source passes one.
\<close>

text \<open>\<open>strings.Count(s, sep)\<close> for a one-byte \<open>sep\<close>: the number of occurrences.\<close>

definition strings_Count :: "string \<Rightarrow> char \<Rightarrow> nat" where
  "strings_Count s sep = length (filter (\<lambda>c. c = sep) s)"

text \<open>
  \<open>strings.Cut(s, sep)\<close>: the text before and after the first \<open>sep\<close>, and whether it was
  found; \<open>(s, "", false)\<close> when it was not.
\<close>

definition strings_Cut :: "string \<Rightarrow> char \<Rightarrow> string \<times> string \<times> bool" where
  "strings_Cut s sep =
     (if sep \<in> set s
      then (takeWhile (\<lambda>c. c \<noteq> sep) s, tl (dropWhile (\<lambda>c. c \<noteq> sep) s), True)
      else (s, [], False))"

text \<open>
  \<open>strings.Split(s, sep)\<close> for a one-byte \<open>sep\<close>: the pieces between the separators, in
  order; always at least one piece (\<open>Split("", "-")\<close> is \<open>[""]\<close>).
\<close>

fun strings_Split :: "string \<Rightarrow> char \<Rightarrow> string list" where
  "strings_Split [] sep = [[]]"
| "strings_Split (c # cs) sep =
     (if c = sep then [] # strings_Split cs sep
      else (case strings_Split cs sep of
              [] \<Rightarrow> [[c]]
            | piece # pieces \<Rightarrow> (c # piece) # pieces))"

text \<open>
  \<open>strings.ToLower\<close> on its ASCII path: each byte \<open>'A'..'Z'\<close> gets \<open>'a' - 'A' = 32\<close>
  added, every other byte is kept. For a string with a byte above \<open>0x7F\<close> Go goes through
  its Unicode case tables, which are not modelled: such bytes are kept here. Kubernetes
  kinds, namespaces, object names and UIDs are ASCII.
\<close>

definition lowerByte :: "char \<Rightarrow> char" where
  "lowerByte c =
     (if CHR ''A'' \<le> c \<and> c \<le> CHR ''Z'' then char_of (of_char c + (32::nat)) else c)"

definition strings_ToLower :: "string \<Rightarrow> string" where
  "strings_ToLower s = map lowerByte s"

text \<open>The verb \<open>%d\<close> of \<open>fmt.Sprintf\<close> on a signed integer: decimal, \<open>-\<close> when negative.\<close>

fun decimalDigits :: "nat \<Rightarrow> string" where
  "decimalDigits n =
     (if n < 10 then [char_of (of_char CHR ''0'' + n)]
      else decimalDigits (n div 10) @ [char_of (of_char CHR ''0'' + n mod 10)])"

declare decimalDigits.simps [simp del]

definition formatInt :: "int \<Rightarrow> string" where
  "formatInt i = (if i < 0 then CHR ''-'' # decimalDigits (nat (- i)) else decimalDigits (nat i))"

text \<open>
  \<open>strconv.Atoi\<close> on a 64-bit platform. \<open>ParseUint\<close> is the digit loop of
  \<open>strconv.ParseUint(s, 10, 64)\<close>: a byte that is not a decimal digit is a syntax error,
  and the loop stops with a range error as soon as the value no longer fits 64 bits.
  \<open>strconv_Atoi\<close> takes one optional sign, refuses the empty string and the bare sign,
  and accepts exactly the values of \<open>int\<close>, \<open>-2^63 .. 2^63 - 1\<close>. (Atoi's fast path for
  fewer than 19 bytes returns the same value or the same syntax error.)
\<close>

datatype NumError = ErrSyntax | ErrRange

definition isDigit :: "char \<Rightarrow> bool" where
  "isDigit c = (CHR ''0'' \<le> c \<and> c \<le> CHR ''9'')"

definition digitVal :: "char \<Rightarrow> nat" where
  "digitVal c = of_char c - of_char CHR ''0''"

fun ParseUint :: "nat \<Rightarrow> string \<Rightarrow> NumError + nat" where
  "ParseUint n [] = Inr n"
| "ParseUint n (c # cs) =
     (if \<not> isDigit c then Inl ErrSyntax
      else if 2 ^ 64 \<le> n * 10 + digitVal c then Inl ErrRange
      else ParseUint (n * 10 + digitVal c) cs)"

definition strconv_Atoi :: "string \<Rightarrow> NumError + int" where
  "strconv_Atoi s =
     (if s = [] then Inl ErrSyntax
      else
        let neg = (hd s = CHR ''-'');
            ds = (if hd s = CHR ''+'' \<or> hd s = CHR ''-'' then tl s else s)
        in if ds = [] then Inl ErrSyntax
           else
             (case ParseUint 0 ds of
                Inl e \<Rightarrow> Inl e
              | Inr un \<Rightarrow>
                  if \<not> neg \<and> 2 ^ 63 \<le> un then Inl ErrRange
                  else if neg \<and> 2 ^ 63 < un then Inl ErrRange
                  else Inr (if neg then - int un else int un)))"

text \<open>\<open>strconv.ParseBool\<close>: twelve accepted spellings, everything else is an error.\<close>

definition strconv_ParseBool :: "string \<Rightarrow> bool option" where
  "strconv_ParseBool str =
     (if str \<in> set [''1'', ''t'', ''T'', ''TRUE'', ''true'', ''True''] then Some True
      else if str \<in> set [''0'', ''f'', ''F'', ''FALSE'', ''false'', ''False''] then Some False
      else None)"

section \<open>Package controllers: pool naming and demand\<close>

text \<open>
  \<open>SubnetPoolName\<close>: \<open>types.IPVersion\<close> is an \<open>int64\<close> printed with \<open>%d\<close>;
  \<open>splits[len(splits)-1]\<close> is in range because \<open>strings.Split\<close> never returns an empty
  slice.
\<close>

definition SubnetPoolName ::
  "string \<Rightarrow> string \<Rightarrow> string \<Rightarrow> int \<Rightarrow> string \<Rightarrow> string \<Rightarrow> string" where
  "SubnetPoolName controllerKind controllerNS controllerName ipVersion ifName controllerUID =
     (let splits = strings_Split controllerUID CHR ''-'';
          lastOne = splits ! (length splits - 1)
      in ''auto-'' @ strings_ToLower controllerKind @ ''-'' @ strings_ToLower controllerNS
           @ ''-'' @ strings_ToLower controllerName @ ''-v'' @ formatInt ipVersion
           @ ''-'' @ ifName @ ''-'' @ strings_ToLower lastOne)"

text \<open>
  \<open>CalculateJobPodNum\<close>: the arguments are \<open>*int32\<close> (\<open>None\<close> is \<open>nil\<close>), the result is
  \<open>int(*p)\<close>, the sign-extended value. The cases are the source's \<open>switch\<close>, in its order.
\<close>

definition CalculateJobPodNum :: "32 word option \<Rightarrow> 32 word option \<Rightarrow> int" where
  "CalculateJobPodNum jobSpecParallelism jobSpecCompletions =
     (if jobSpecParallelism \<noteq> None \<and> jobSpecCompletions = None then
        (if the jobSpecParallelism = 0 then 1 else sint (the jobSpecParallelism))
      else if jobSpecParallelism = None \<and> jobSpecCompletions \<noteq> None then
        (if the jobSpecCompletions = 0 then 1 else sint (the jobSpecCompletions))
      else if jobSpecParallelism \<noteq> None \<and> jobSpecCompletions \<noteq> None then
        (if the jobSpecCompletions = 0 then 1 else sint (the jobSpecCompletions))
      else 1)"

section \<open>Package controllers: the pool IP number\<close>

text \<open>
  The errors of the package, one constructor for each place that builds one.
  \<open>InvalidInput str\<close> is \<open>errInvalidInput(str)\<close>; \<open>InvalidInputAtoi str e\<close> is that error
  wrapping the error \<open>e\<close> of \<open>strconv.Atoi\<close>. The messages' texts are not modelled.
\<close>

datatype error =
    InvalidInput string
  | InvalidInputAtoi string NumError
  | ParseSubnetsFailed string string
  | ParseSubnetFailed string string
  | NegativeIPNumber
  | ParseReclaimFailed string
  | EmptyIPv4Multiple
  | EmptyIPv6Multiple
  | DualEmptyMultiple
  | DuplicateSubnet
  | DuplicateInterface
  | EmptyIPv4Single
  | EmptyIPv6Single
  | DualEmptySingle
  | NoSubnetsSpecified

text \<open>
  \<open>GetPoolIPNumber\<close> returns Go's triple \<open>(isFlexible, ipNum, err)\<close>; \<open>None\<close> is the
  \<open>nil\<close> error.
\<close>

definition GetPoolIPNumber :: "string \<Rightarrow> bool \<times> int \<times> error option" where
  "GetPoolIPNumber str =
     (let plusSignNum = strings_Count str CHR ''+'' in
      if plusSignNum = 0 \<or> plusSignNum = 1 then
        (case strings_Cut str CHR ''+'' of
           (before, after, found) \<Rightarrow>
             (let tmp = (if found then after else str) in
              case strconv_Atoi tmp of
                Inl err \<Rightarrow> (False, - 1, Some (InvalidInputAtoi str err))
              | Inr ipNum \<Rightarrow> (found, ipNum, None)))
      else (False, - 1, Some (InvalidInput str)))"

section \<open>Package controllers: the subnet annotations of a pod\<close>

text \<open>
  \<open>types.AnnoSubnetItem\<close> and \<open>types.PodSubnetAnnoConfig\<close>, with the fields the source
  reads and writes. A slice is a list (\<open>nil\<close> and the empty slice are both \<open>[]\<close>, the
  source only takes their \<open>len\<close>), a pointer is an \<open>option\<close>.
\<close>

record AnnoSubnetItem =
  Interface :: string
  IPv4 :: "string list"
  IPv6 :: "string list"

record PodSubnetAnnoConfig =
  MultipleSubnets :: "AnnoSubnetItem list"
  SingleSubnet :: "AnnoSubnetItem option"
  FlexibleIPNum :: "int option"
  AssignIPNum :: int
  ReclaimIPPool :: bool

text \<open>The zero value of \<open>var subnetAnnoConfig types.PodSubnetAnnoConfig\<close>.\<close>

definition zeroPodSubnetAnnoConfig :: PodSubnetAnnoConfig where
  "zeroPodSubnetAnnoConfig =
     \<lparr>MultipleSubnets = [], SingleSubnet = None, FlexibleIPNum = None,
      AssignIPNum = 0, ReclaimIPPool = False\<rparr>"

text \<open>
  Modelled from the spec: package \<open>constant\<close> is not among the sources. The spec names four
  pod annotations (subnet-multi, subnet-single, pool-ip-number, pool-reclaim) and a cluster
  default interface name, without their values; the values here are the ones the comments
  of \<open>GetSubnetAnnoConfig\<close>, \<open>ShouldReclaimIPPool\<close> and \<open>mutateAndValidateSubnetAnno\<close>
  give. The proofs use only that the four keys are pairwise different.
\<close>

definition AnnoSpiderSubnets :: string where
  "AnnoSpiderSubnets = ''ipam.spidernet.io/subnets''"

definition AnnoSpiderSubnet :: string where
  "AnnoSpiderSubnet = ''ipam.spidernet.io/subnet''"

definition AnnoSpiderSubnetPoolIPNumber :: string where
  "AnnoSpiderSubnetPoolIPNumber = ''ipam.spidernet.io/ippool-ip-number''"

definition AnnoSpiderSubnetReclaimIPPool :: string where
  "AnnoSpiderSubnetReclaimIPPool = ''ipam.spidernet.io/ippool-reclaim''"

definition ClusterDefaultInterfaceName :: string where
  "ClusterDefaultInterfaceName = ''eth0''"

text \<open>
  \<open>IsDefaultIPPoolMode\<close>, with the three \<open>if\<close>s of the source and its trailing
  \<open>return false\<close>.
\<close>

definition IsDefaultIPPoolMode :: "PodSubnetAnnoConfig option \<Rightarrow> bool" where
  "IsDefaultIPPoolMode subnetConfig =
     (if subnetConfig = None then True
      else if length (MultipleSubnets (the subnetConfig)) \<noteq> 0 then False
      else if SingleSubnet (the subnetConfig) \<noteq> None then False
      else False)"

text \<open>
  \<open>containsDuplicate\<close>: \<open>sort.Strings\<close>, then the loop over neighbours
  \<open>arr[i] == arr[i-1]\<close>. The sort is in place, on arrays local to the caller.
\<close>

fun adjacentEqual :: "string list \<Rightarrow> bool" where
  "adjacentEqual (x # y # ys) = (if y = x then True else adjacentEqual (y # ys))"
| "adjacentEqual ys = False"

definition containsDuplicate :: "string list \<Rightarrow> bool" where
  "containsDuplicate arr = adjacentEqual (sort arr)"

text \<open>\<open>ShouldReclaimIPPool\<close> returns Go's pair \<open>(bool, error)\<close>.\<close>

definition ShouldReclaimIPPool :: "(string \<rightharpoonup> string) \<Rightarrow> bool \<times> error option" where
  "ShouldReclaimIPPool anno =
     (case anno AnnoSpiderSubnetReclaimIPPool of
        Some reclaimPool \<Rightarrow>
          (case strconv_ParseBool reclaimPool of
             None \<Rightarrow> (False, Some (ParseReclaimFailed reclaimPool))
           | Some parseBool \<Rightarrow> (parseBool, None))
      | None \<Rightarrow> (True, None))"

text \<open>
  The \<open>for index := range subnetConfig.MultipleSubnets\<close> loop of
  \<open>mutateAndValidateSubnetAnno\<close>. The entries already visited are \<open>seen\<close> (each cut to
  its first address), the entries still to visit follow; the three arrays grow by
  \<open>append\<close>. The loop returns the slice as the source leaves it (it writes through the
  pointer, also on the iteration that fails), the arrays, and the error of an early return.
\<close>

fun subnetsLoop ::
  "AnnoSubnetItem list \<Rightarrow> AnnoSubnetItem list \<Rightarrow> string list \<Rightarrow> string list \<Rightarrow> string list
   \<Rightarrow> AnnoSubnetItem list \<times> string list \<times> string list \<times> string list \<times> error option" where
  "subnetsLoop seen [] ifNameArray v4SubnetsArray v6SubnetsArray =
     (seen, ifNameArray, v4SubnetsArray, v6SubnetsArray, None)"
| "subnetsLoop seen (item # rest) ifNameArray v4SubnetsArray v6SubnetsArray =
     (let ifNameArray' = ifNameArray @ [Interface item];
          item4 = (if length (IPv4 item) \<noteq> 0 then item\<lparr>IPv4 := [hd (IPv4 item)]\<rparr> else item)
      in if length (IPv4 item) \<noteq> 0 \<and> hd (IPv4 item4) = []
         then (seen @ item4 # rest, ifNameArray', v4SubnetsArray, v6SubnetsArray,
               Some EmptyIPv4Multiple)
         else
           (let v4' = (if length (IPv4 item) \<noteq> 0 then v4SubnetsArray @ [hd (IPv4 item4)]
                       else v4SubnetsArray);
                item6 = (if length (IPv6 item4) \<noteq> 0 then item4\<lparr>IPv6 := [hd (IPv6 item4)]\<rparr>
                         else item4)
            in if length (IPv6 item4) \<noteq> 0 \<and> hd (IPv6 item6) = []
               then (seen @ item6 # rest, ifNameArray', v4', v6SubnetsArray,
                     Some EmptyIPv6Multiple)
               else
                 (let v6' = (if length (IPv6 item4) \<noteq> 0 then v6SubnetsArray @ [hd (IPv6 item6)]
                             else v6SubnetsArray)
                  in if length (IPv4 item6) = 0 \<and> length (IPv6 item6) = 0
                     then (seen @ item6 # rest, ifNameArray', v4', v6', Some DualEmptyMultiple)
                     else subnetsLoop (seen @ [item6]) rest ifNameArray' v4' v6')))"

text \<open>
  \<open>mutateAndValidateSubnetAnno\<close> takes a pointer and returns an error: the model returns
  the configuration as the call leaves it, and the error.
\<close>

definition mutateAndValidateSubnetAnno ::
  "PodSubnetAnnoConfig \<Rightarrow> PodSubnetAnnoConfig \<times> error option" where
  "mutateAndValidateSubnetAnno subnetConfig =
     (if length (MultipleSubnets subnetConfig) \<noteq> 0 then
        (case subnetsLoop [] (MultipleSubnets subnetConfig) [] [] [] of
           (items, ifNameArray, v4SubnetsArray, v6SubnetsArray, loopErr) \<Rightarrow>
             (let cfg = subnetConfig\<lparr>MultipleSubnets := items\<rparr> in
              if loopErr \<noteq> None then (cfg, loopErr)
              else if containsDuplicate v4SubnetsArray \<or> containsDuplicate v6SubnetsArray
                then (cfg, Some DuplicateSubnet)
              else if containsDuplicate ifNameArray then (cfg, Some DuplicateInterface)
              else (cfg, None)))
      else if SingleSubnet subnetConfig \<noteq> None then
        (let single = the (SingleSubnet subnetConfig);
             single4 = (if length (IPv4 single) \<noteq> 0 then single\<lparr>IPv4 := [hd (IPv4 single)]\<rparr>
                        else single)
         in if length (IPv4 single) \<noteq> 0 \<and> hd (IPv4 single4) = []
            then (subnetConfig\<lparr>SingleSubnet := Some single4\<rparr>, Some EmptyIPv4Single)
            else
              (let single6 = (if length (IPv6 single4) \<noteq> 0
                              then single4\<lparr>IPv6 := [hd (IPv6 single4)]\<rparr> else single4)
               in if length (IPv6 single4) \<noteq> 0 \<and> hd (IPv6 single6) = []
                  then (subnetConfig\<lparr>SingleSubnet := Some single6\<rparr>, Some EmptyIPv6Single)
                  else if length (IPv4 single6) = 0 \<and> length (IPv6 single6) = 0
                  then (subnetConfig\<lparr>SingleSubnet := Some single6\<rparr>, Some DualEmptySingle)
                  else if Interface single6 = []
                  then (subnetConfig\<lparr>SingleSubnet :=
                          Some (single6\<lparr>Interface := ClusterDefaultInterfaceName\<rparr>)\<rparr>, None)
                  else (subnetConfig\<lparr>SingleSubnet := Some single6\<rparr>, None)))
      else (subnetConfig, Some NoSubnetsSpecified))"

text \<open>
  What \<open>GetSubnetAnnoConfig\<close> takes from outside the package: \<open>json.Unmarshal\<close> into
  the slice \<open>MultipleSubnets\<close> and into the pointer \<open>SingleSubnet\<close> (\<open>Inl\<close> is the
  decoder's error text; decoding the JSON \<open>null\<close> into the pointer leaves it \<open>nil\<close>,
  which is \<open>Inr None\<close>), and the cluster default read from package \<open>singletons\<close>.
\<close>

record Collaborators =
  unmarshalSubnets :: "string \<Rightarrow> string + AnnoSubnetItem list"
  unmarshalSubnet :: "string \<Rightarrow> string + AnnoSubnetItem option"
  ClusterSubnetDefaultFlexibleIPNumber :: int

text \<open>
  \<open>GetSubnetAnnoConfig\<close> returns Go's pair \<open>(*PodSubnetAnnoConfig, error)\<close>. The function
  is one sequence of steps with early returns; it is written here as three definitions,
  each calling the next: \<open>GetSubnetAnnoConfig_reclaim\<close> is the part from the reclaim
  annotation to the end, \<open>GetSubnetAnnoConfig_ipNumber\<close> the part from the IP number
  annotation on, \<open>GetSubnetAnnoConfig\<close> the whole. The debug log lines are left out.
\<close>

definition GetSubnetAnnoConfig_reclaim ::
  "(string \<rightharpoonup> string) \<Rightarrow> PodSubnetAnnoConfig \<Rightarrow> PodSubnetAnnoConfig option \<times> error option" where
  "GetSubnetAnnoConfig_reclaim podAnnotations subnetAnnoConfig =
     (case ShouldReclaimIPPool podAnnotations of
        (reclaimPool, err) \<Rightarrow>
          if err \<noteq> None then (None, err)
          else
            (case mutateAndValidateSubnetAnno (subnetAnnoConfig\<lparr>ReclaimIPPool := reclaimPool\<rparr>) of
               (mutated, err') \<Rightarrow>
                 if err' \<noteq> None then (None, err') else (Some mutated, None)))"

definition GetSubnetAnnoConfig_ipNumber ::
  "Collaborators \<Rightarrow> (string \<rightharpoonup> string) \<Rightarrow> PodSubnetAnnoConfig
   \<Rightarrow> PodSubnetAnnoConfig option \<times> error option" where
  "GetSubnetAnnoConfig_ipNumber env podAnnotations subnetAnnoConfig =
     (case podAnnotations AnnoSpiderSubnetPoolIPNumber of
        Some poolIPNum \<Rightarrow>
          (case GetPoolIPNumber poolIPNum of
             (isFlexible, ipNum, err) \<Rightarrow>
               if err \<noteq> None then (None, err)
               else if ipNum < 0 then (None, Some NegativeIPNumber)
               else if isFlexible
                 then GetSubnetAnnoConfig_reclaim podAnnotations
                        (subnetAnnoConfig\<lparr>FlexibleIPNum := Some ipNum\<rparr>)
                 else GetSubnetAnnoConfig_reclaim podAnnotations
                        (subnetAnnoConfig\<lparr>AssignIPNum := ipNum\<rparr>))
      | None \<Rightarrow>
          GetSubnetAnnoConfig_reclaim podAnnotations
            (subnetAnnoConfig\<lparr>FlexibleIPNum :=
               Some (ClusterSubnetDefaultFlexibleIPNumber env)\<rparr>))"

definition GetSubnetAnnoConfig ::
  "Collaborators \<Rightarrow> (string \<rightharpoonup> string) \<Rightarrow> PodSubnetAnnoConfig option \<times> error option" where
  "GetSubnetAnnoConfig env podAnnotations =
     (case podAnnotations AnnoSpiderSubnets of
        Some subnets \<Rightarrow>
          (case unmarshalSubnets env subnets of
             Inl err \<Rightarrow> (None, Some (ParseSubnetsFailed subnets err))
           | Inr items \<Rightarrow>
               GetSubnetAnnoConfig_ipNumber env podAnnotations
                 (zeroPodSubnetAnnoConfig\<lparr>MultipleSubnets := items\<rparr>))
      | None \<Rightarrow>
          (case podAnnotations AnnoSpiderSubnet of
             Some subnet \<Rightarrow>
               (case unmarshalSubnet env subnet of
                  Inl err \<Rightarrow> (None, Some (ParseSubnetFailed subnet err))
                | Inr item \<Rightarrow>
                    GetSubnetAnnoConfig_ipNumber env podAnnotations
                      (zeroPodSubnetAnnoConfig\<lparr>SingleSubnet := item\<rparr>))
           | None \<Rightarrow> (None, None)))"

section \<open>Package podmanager: the top controller of a pod\<close>

text \<open>
  \<open>metav1.OwnerReference\<close> and \<open>metav1.ObjectMeta\<close>, with the fields the sources read.
  \<open>Controller\<close> is a \<open>*bool\<close>; \<open>DeletionTimestamp\<close> is a \<open>*metav1.Time\<close>, a number here.
  A Kubernetes object embeds its \<open>ObjectMeta\<close>: \<open>Object\<close> extends the record, so that
  \<open>Namespace pod\<close> reads like \<open>pod.Namespace\<close>; \<open>Body\<close> stands for the spec and status,
  which none of the modelled functions reads.
\<close>

record OwnerReference =
  ownerAPIVersion :: string
  ownerKind :: string
  ownerName :: string
  ownerUID :: string
  ownerController :: "bool option"

record ObjectMeta =
  Namespace :: string
  Name :: string
  UID :: string
  OwnerReferences :: "OwnerReference list"
  DeletionTimestamp :: "int option"
  Finalizers :: "string list"

record 'b Object = ObjectMeta +
  Body :: 'b

text \<open>
  \<open>metav1.GetControllerOf\<close>: the first owner reference whose \<open>Controller\<close> is set and
  true, \<open>nil\<close> when there is none.
\<close>

definition GetControllerOf :: "'a ObjectMeta_scheme \<Rightarrow> OwnerReference option" where
  "GetControllerOf controllee =
     find (\<lambda>ref. ownerController ref \<noteq> None \<and> the (ownerController ref))
       (OwnerReferences controllee)"

text \<open>
  Modelled from the spec: package \<open>constant\<close> is not among the sources. The kinds are the
  eight values the spec lists for \<open>PodTopController.Kind\<close>, spelled as Kubernetes spells
  the kind of an owner reference.
\<close>

definition KindPod :: string where "KindPod = ''Pod''"
definition KindDeployment :: string where "KindDeployment = ''Deployment''"
definition KindStatefulSet :: string where "KindStatefulSet = ''StatefulSet''"
definition KindDaemonSet :: string where "KindDaemonSet = ''DaemonSet''"
definition KindUnknown :: string where "KindUnknown = ''Unknown''"
definition KindReplicaSet :: string where "KindReplicaSet = ''ReplicaSet''"
definition KindJob :: string where "KindJob = ''Job''"
definition KindCronJob :: string where "KindCronJob = ''CronJob''"

text \<open>
  \<open>appsv1.SchemeGroupVersion.String()\<close> and \<open>batchv1.SchemeGroupVersion.String()\<close> of
  the Kubernetes API packages: group, a slash, version.
\<close>

definition appsv1_GroupVersion :: string where "appsv1_GroupVersion = ''apps/v1''"
definition batchv1_GroupVersion :: string where "batchv1_GroupVersion = ''batch/v1''"

text \<open>
  The group of an \<open>apiVersion\<close>: the text before the slash, and the empty (core) group
  when there is no slash. It is used to state properties, not by the code.
\<close>

definition apiGroup :: "string \<Rightarrow> string" where
  "apiGroup apiVersion =
     (case strings_Cut apiVersion CHR ''/'' of
        (before, after, found) \<Rightarrow> if found then before else [])"

text \<open>
  \<open>types.PodTopController\<close>. \<open>APP\<close> is an interface value: the fetched object behind a
  tag for its Go type, or \<open>nil\<close>. The zero value is what the source returns with an error.
\<close>

datatype 'b APP =
    AppPod "'b Object"
  | AppReplicaSet "'b Object"
  | AppDeployment "'b Object"
  | AppJob "'b Object"
  | AppCronJob "'b Object"
  | AppDaemonSet "'b Object"
  | AppStatefulSet "'b Object"

record 'b PodTopController =
  topKind :: string
  topNamespace :: string
  topName :: string
  topUID :: string
  APP :: "'b APP option"

definition zeroPodTopController :: "'b PodTopController" where
  "zeroPodTopController =
     \<lparr>topKind = [], topNamespace = [], topName = [], topUID = [], APP = None\<rparr>"

text \<open>
  The Kubernetes client: \<open>client.Get(ctx, NamespacedName{namespace, name}, &obj)\<close> is a
  function of the Go type of \<open>obj\<close>, the namespace and the name, returning the object or
  an error. Each call the function makes, and each warning it logs (with the kind, the
  pod's namespace and the pod's name it prints), is recorded in order: the function
  returns Go's pair \<open>(PodTopController, error)\<close> and this trace.
\<close>

datatype Resource =
  ReplicaSets | Deployments | Jobs | CronJobs | DaemonSets | StatefulSets

datatype ClientError = NotFound | APIError string

type_synonym 'b Client = "Resource \<Rightarrow> string \<Rightarrow> string \<Rightarrow> ClientError + 'b Object"

datatype Event =
    Fetched Resource string string
  | Warned string string string

text \<open>\<open>fmt.Errorf("%w: %v", ownerErr, err)\<close>: the pod's namespace and name, and the cause.\<close>

datatype OwnerError = OwnerLookupFailed string string ClientError

definition GetPodTopController ::
  "'b Client \<Rightarrow> 'b Object \<Rightarrow> ('b PodTopController \<times> OwnerError option) \<times> Event list" where
  "GetPodTopController client pod =
     (let ownerErr = OwnerLookupFailed (Namespace pod) (Name pod) in
      case GetControllerOf pod of
        None \<Rightarrow>
          ((\<lparr>topKind = KindPod, topNamespace = Namespace pod, topName = Name pod,
             topUID = UID pod, APP = Some (AppPod pod)\<rparr>, None), [])
      | Some podOwner \<Rightarrow>
          if ownerAPIVersion podOwner \<noteq> appsv1_GroupVersion
             \<and> ownerAPIVersion podOwner \<noteq> batchv1_GroupVersion
          then
            ((\<lparr>topKind = KindUnknown, topNamespace = Namespace pod, topName = ownerName podOwner,
               topUID = ownerUID podOwner, APP = None\<rparr>, None), [])
          else if ownerKind podOwner = KindReplicaSet then
            (case client ReplicaSets (Namespace pod) (ownerName podOwner) of
               Inl err \<Rightarrow>
                 ((zeroPodTopController, Some (ownerErr err)),
                  [Fetched ReplicaSets (Namespace pod) (ownerName podOwner)])
             | Inr replicaset \<Rightarrow>
                 (case GetControllerOf replicaset of
                    Some replicasetOwner \<Rightarrow>
                      if ownerKind replicasetOwner = KindDeployment then
                        (case client Deployments (Namespace replicaset)
                                (ownerName replicasetOwner) of
                           Inl err \<Rightarrow>
                             ((zeroPodTopController, Some (ownerErr err)),
                              [Fetched ReplicaSets (Namespace pod) (ownerName podOwner),
                               Fetched Deployments (Namespace replicaset)
                                 (ownerName replicasetOwner)])
                         | Inr deployment \<Rightarrow>
                             ((\<lparr>topKind = KindDeployment, topNamespace = Namespace deployment,
                                topName = Name deployment, topUID = UID deployment,
                                APP = Some (AppDeployment deployment)\<rparr>, None),
                              [Fetched ReplicaSets (Namespace pod) (ownerName podOwner),
                               Fetched Deployments (Namespace replicaset)
                                 (ownerName replicasetOwner)]))
                      else
                        ((\<lparr>topKind = KindUnknown, topNamespace = Namespace pod,
                           topName = ownerName replicasetOwner,
                           topUID = ownerUID replicasetOwner, APP = None\<rparr>, None),
                         [Fetched ReplicaSets (Namespace pod) (ownerName podOwner),
                          Warned (ownerKind replicasetOwner) (Namespace pod) (Name pod)])
                  | None \<Rightarrow>
                      ((\<lparr>topKind = KindReplicaSet, topNamespace = Namespace replicaset,
                         topName = Name replicaset, topUID = UID replicaset,
                         APP = Some (AppReplicaSet replicaset)\<rparr>, None),
                       [Fetched ReplicaSets (Namespace pod) (ownerName podOwner)])))
          else if ownerKind podOwner = KindJob then
            (case client Jobs (Namespace pod) (ownerName podOwner) of
               Inl err \<Rightarrow>
                 ((zeroPodTopController, Some (ownerErr err)),
                  [Fetched Jobs (Namespace pod) (ownerName podOwner)])
             | Inr job \<Rightarrow>
                 (case GetControllerOf job of
                    Some jobOwner \<Rightarrow>
                      if ownerKind jobOwner = KindCronJob then
                        (case client CronJobs (Namespace job) (ownerName jobOwner) of
                           Inl err \<Rightarrow>
                             ((zeroPodTopController, Some (ownerErr err)),
                              [Fetched Jobs (Namespace pod) (ownerName podOwner),
                               Fetched CronJobs (Namespace job) (ownerName jobOwner)])
                         | Inr cronJob \<Rightarrow>
                             ((\<lparr>topKind = KindCronJob, topNamespace = Namespace cronJob,
                                topName = Name cronJob, topUID = UID cronJob,
                                APP = Some (AppCronJob cronJob)\<rparr>, None),
                              [Fetched Jobs (Namespace pod) (ownerName podOwner),
                               Fetched CronJobs (Namespace job) (ownerName jobOwner)]))
                      else
                        ((\<lparr>topKind = KindUnknown, topNamespace = Namespace job,
                           topName = ownerName jobOwner, topUID = ownerUID jobOwner,
                           APP = None\<rparr>, None),
                         [Fetched Jobs (Namespace pod) (ownerName podOwner),
                          Warned (ownerKind jobOwner) (Namespace pod) (Name pod)])
                  | None \<Rightarrow>
                      ((\<lparr>topKind = KindJob, topNamespace = Namespace job, topName = Name job,
                         topUID = UID job, APP = Some (AppJob job)\<rparr>, None),
                       [Fetched Jobs (Namespace pod) (ownerName podOwner)])))
          else if ownerKind podOwner = KindDaemonSet then
            (case client DaemonSets (Namespace pod) (ownerName podOwner) of
               Inl err \<Rightarrow>
                 ((zeroPodTopController, Some (ownerErr err)),
                  [Fetched DaemonSets (Namespace pod) (ownerName podOwner)])
             | Inr daemonSet \<Rightarrow>
                 ((\<lparr>topKind = KindDaemonSet, topNamespace = Namespace daemonSet,
                    topName = Name daemonSet, topUID = UID daemonSet,
                    APP = Some (AppDaemonSet daemonSet)\<rparr>, None),
                  [Fetched DaemonSets (Namespace pod) (ownerName podOwner)]))
          else if ownerKind podOwner = KindStatefulSet then
            (case client StatefulSets (Namespace pod) (ownerName podOwner) of
               Inl err \<Rightarrow>
                 ((zeroPodTopController, Some (ownerErr err)),
                  [Fetched StatefulSets (Namespace pod) (ownerName podOwner)])
             | Inr statefulSet \<Rightarrow>
                 ((\<lparr>topKind = KindStatefulSet, topNamespace = Namespace statefulSet,
                    topName = Name statefulSet, topUID = UID statefulSet,
                    APP = Some (AppStatefulSet statefulSet)\<rparr>, None),
                  [Fetched StatefulSets (Namespace pod) (ownerName podOwner)]))
          else
            ((\<lparr>topKind = KindUnknown, topNamespace = Namespace pod, topName = ownerName podOwner,
               topUID = ownerUID podOwner, APP = None\<rparr>, None),
             [Warned (ownerKind podOwner) (Namespace pod) (Name pod)]))"

section \<open>Package subnetmanager: the validating webhook\<close>

text \<open>
  \<open>controllerutil.ContainsFinalizer\<close>: whether the finalizer is one of the object's.
\<close>

definition ContainsFinalizer :: "'a ObjectMeta_scheme \<Rightarrow> string \<Rightarrow> bool" where
  "ContainsFinalizer obj finalizer = (finalizer \<in> set (Finalizers obj))"

text \<open>
  The two admission errors of \<open>ValidateUpdate\<close>: \<open>apierrors.NewForbidden\<close> with its
  message, and \<open>apierrors.NewInvalid\<close> with the subnet's name and the field errors.
\<close>

datatype 'e AdmissionError =
    Forbidden string
  | Invalid string "'e list"

text \<open>
  \<open>ValidateUpdate\<close>. The finalizer \<open>constant.SpiderFinalizer\<close> and the method
  \<open>validateUpdateSubnet\<close> (which returns a list of field errors) are not among the
  sources: they are parameters. A \<open>SpiderSubnet\<close> is an \<open>Object\<close> whose \<open>Body\<close> is its
  spec and status; the result is the returned error, \<open>None\<close> for \<open>nil\<close> (the update is
  admitted). The log lines are left out.
\<close>

definition ValidateUpdate ::
  "string \<Rightarrow> ('b Object \<Rightarrow> 'b Object \<Rightarrow> 'e list) \<Rightarrow> 'b Object \<Rightarrow> 'b Object
   \<Rightarrow> 'e AdmissionError option" where
  "ValidateUpdate SpiderFinalizer validateUpdateSubnet oldSubnet newSubnet =
     (if DeletionTimestamp newSubnet \<noteq> None then
        (if \<not> ContainsFinalizer newSubnet SpiderFinalizer then None
         else Some (Forbidden ''cannot update a terminaing Subnet''))
      else
        (let errs = validateUpdateSubnet oldSubnet newSubnet in
         if length errs \<noteq> 0 then Some (Invalid (Name newSubnet) errs) else None))"

section \<open>Example inputs\<close>

text \<open>
  Concrete inputs on which the theorems below are instantiated. The JSON decoder is a
  collaborator: the example one knows three annotation values (written without the
  quotation marks of JSON) and refuses every other text.
\<close>

definition subnetsOnTwoInterfaces :: string where
  "subnetsOnTwoInterfaces =
     ''[{interface:eth0,ipv4:[subnet-a]},{interface:eth1,ipv4:[subnet-b],ipv6:[subnet-c]}]''"

definition subnetsSharingOne :: string where
  "subnetsSharingOne =
     ''[{interface:eth0,ipv4:[subnet-a]},{interface:eth1,ipv4:[subnet-a,subnet-b]}]''"

definition subnetForOneInterface :: string where
  "subnetForOneInterface = ''{ipv4:[subnet-a,subnet-b]}''"

definition exampleCollaborators :: Collaborators where
  "exampleCollaborators =
     \<lparr>unmarshalSubnets = (\<lambda>data.
        if data = subnetsOnTwoInterfaces then
          Inr [\<lparr>Interface = ''eth0'', IPv4 = [''subnet-a''], IPv6 = []\<rparr>,
               \<lparr>Interface = ''eth1'', IPv4 = [''subnet-b''], IPv6 = [''subnet-c'']\<rparr>]
        else if data = subnetsSharingOne then
          Inr [\<lparr>Interface = ''eth0'', IPv4 = [''subnet-a''], IPv6 = []\<rparr>,
               \<lparr>Interface = ''eth1'', IPv4 = [''subnet-a'', ''subnet-b''], IPv6 = []\<rparr>]
        else Inl ''invalid character''),
      unmarshalSubnet = (\<lambda>data.
        if data = subnetForOneInterface then
          Inr (Some \<lparr>Interface = [], IPv4 = [''subnet-a'', ''subnet-b''], IPv6 = []\<rparr>)
        else Inl ''invalid character''),
      ClusterSubnetDefaultFlexibleIPNumber = 1\<rparr>"

definition annotationsWithBoth :: "string \<rightharpoonup> string" where
  "annotationsWithBoth =
     [AnnoSpiderSubnets \<mapsto> subnetsOnTwoInterfaces,
      AnnoSpiderSubnet \<mapsto> subnetForOneInterface,
      AnnoSpiderSubnetPoolIPNumber \<mapsto> ''+2'']"

definition annotationsSharingOne :: "string \<rightharpoonup> string" where
  "annotationsSharingOne = [AnnoSpiderSubnets \<mapsto> subnetsSharingOne]"

definition annotationsNegative :: "string \<rightharpoonup> string" where
  "annotationsNegative =
     [AnnoSpiderSubnets \<mapsto> subnetsOnTwoInterfaces, AnnoSpiderSubnetPoolIPNumber \<mapsto> ''-5'']"








text \<open>
  A small cluster: the Deployment \<open>web\<close> with its ReplicaSet and pod, the DaemonSet
  \<open>agent\<close> with its pod, a ReplicaSet and a Job owned by controllers of other kinds
  (\<open>Rollout\<close>, \<open>Workflow\<close>), a pod owned by a third-party controller, a pod with no
  controller owner, a pod whose owner reference names the ReplicaSet of \<open>web\<close> under
  an older version of the apps group, and pods whose owners cannot be fetched: a
  ReplicaSet, a Job and a DaemonSet that are gone, a ReplicaSet whose Deployment is gone,
  a Job whose CronJob is gone, and a StatefulSet for which the API server times out.
\<close>

definition controllerRef :: "string \<Rightarrow> string \<Rightarrow> string \<Rightarrow> string \<Rightarrow> OwnerReference" where
  "controllerRef apiVersion kind name uid =
     \<lparr>ownerAPIVersion = apiVersion, ownerKind = kind, ownerName = name, ownerUID = uid,
      ownerController = Some True\<rparr>"

definition exampleObject :: "string \<Rightarrow> string \<Rightarrow> OwnerReference list \<Rightarrow> string Object" where
  "exampleObject name uid owners =
     \<lparr>Namespace = ''default'', Name = name, UID = uid, OwnerReferences = owners,
      DeletionTimestamp = None, Finalizers = [], Body = name\<rparr>"

definition deploymentWeb :: "string Object" where
  "deploymentWeb = exampleObject ''web'' ''uid-deployment-web'' []"

definition replicasetWeb :: "string Object" where
  "replicasetWeb =
     exampleObject ''web-7c9f'' ''uid-replicaset-web''
       [controllerRef ''apps/v1'' ''Deployment'' ''web'' ''uid-deployment-web'']"

definition podWeb :: "string Object" where
  "podWeb =
     exampleObject ''web-7c9f-x2x'' ''uid-pod-web''
       [controllerRef ''apps/v1'' ''ReplicaSet'' ''web-7c9f'' ''uid-replicaset-web'']"

definition daemonsetAgent :: "string Object" where
  "daemonsetAgent = exampleObject ''agent'' ''uid-daemonset-agent'' []"

definition podAgent :: "string Object" where
  "podAgent =
     exampleObject ''agent-k4'' ''uid-pod-agent''
       [controllerRef ''apps/v1'' ''DaemonSet'' ''agent'' ''uid-daemonset-agent'']"

definition replicasetCanary :: "string Object" where
  "replicasetCanary =
     exampleObject ''canary-5f'' ''uid-replicaset-canary''
       [controllerRef ''argoproj.io/v1alpha1'' ''Rollout'' ''canary'' ''uid-rollout-canary'']"

definition podCanary :: "string Object" where
  "podCanary =
     exampleObject ''canary-5f-abc'' ''uid-pod-canary''
       [controllerRef ''apps/v1'' ''ReplicaSet'' ''canary-5f'' ''uid-replicaset-canary'']"

definition jobImport :: "string Object" where
  "jobImport =
     exampleObject ''import-1'' ''uid-job-import''
       [controllerRef ''argoproj.io/v1alpha1'' ''Workflow'' ''import'' ''uid-workflow-import'']"

definition podImport :: "string Object" where
  "podImport =
     exampleObject ''import-1-zz'' ''uid-pod-import''
       [controllerRef ''batch/v1'' ''Job'' ''import-1'' ''uid-job-import'']"

definition podThirdParty :: "string Object" where
  "podThirdParty =
     exampleObject ''game-0'' ''uid-pod-game''
       [controllerRef ''apps.kruise.io/v1beta1'' ''StatefulSet'' ''game'' ''uid-kruise-game'']"

definition podBare :: "string Object" where
  "podBare =
     exampleObject ''debug'' ''uid-pod-debug''
       [\<lparr>ownerAPIVersion = ''v1'', ownerKind = ''Node'', ownerName = ''node-1'',
         ownerUID = ''uid-node-1'', ownerController = None\<rparr>]"

definition podOrphan :: "string Object" where
  "podOrphan =
     exampleObject ''gone-1-q'' ''uid-pod-orphan''
       [controllerRef ''apps/v1'' ''ReplicaSet'' ''gone-1'' ''uid-replicaset-gone'']"

definition podOldVersion :: "string Object" where
  "podOldVersion =
     exampleObject ''web-7c9f-old'' ''uid-pod-web-old''
       [controllerRef ''apps/v1beta2'' ''ReplicaSet'' ''web-7c9f'' ''uid-replicaset-web'']"

definition replicasetLost :: "string Object" where
  "replicasetLost =
     exampleObject ''lost-1'' ''uid-replicaset-lost''
       [controllerRef ''apps/v1'' ''Deployment'' ''lost'' ''uid-deployment-lost'']"

definition podLost :: "string Object" where
  "podLost =
     exampleObject ''lost-1-p'' ''uid-pod-lost''
       [controllerRef ''apps/v1'' ''ReplicaSet'' ''lost-1'' ''uid-replicaset-lost'']"

definition jobNightly :: "string Object" where
  "jobNightly =
     exampleObject ''nightly-1'' ''uid-job-nightly''
       [controllerRef ''batch/v1'' ''CronJob'' ''nightly'' ''uid-cronjob-nightly'']"

definition podNightly :: "string Object" where
  "podNightly =
     exampleObject ''nightly-1-p'' ''uid-pod-nightly''
       [controllerRef ''batch/v1'' ''Job'' ''nightly-1'' ''uid-job-nightly'']"

definition podJobGone :: "string Object" where
  "podJobGone =
     exampleObject ''once-p'' ''uid-pod-once''
       [controllerRef ''batch/v1'' ''Job'' ''once'' ''uid-job-once'']"

definition podDaemonGone :: "string Object" where
  "podDaemonGone =
     exampleObject ''probe-p'' ''uid-pod-probe''
       [controllerRef ''apps/v1'' ''DaemonSet'' ''probe'' ''uid-daemonset-probe'']"

definition podStatefulTimeout :: "string Object" where
  "podStatefulTimeout =
     exampleObject ''db-0'' ''uid-pod-db''
       [controllerRef ''apps/v1'' ''StatefulSet'' ''db'' ''uid-statefulset-db'']"

definition exampleClient :: "string Client" where
  "exampleClient resource namespace name =
     (if namespace \<noteq> ''default'' then Inl NotFound
      else if resource = ReplicaSets \<and> name = ''web-7c9f'' then Inr replicasetWeb
      else if resource = ReplicaSets \<and> name = ''canary-5f'' then Inr replicasetCanary
      else if resource = ReplicaSets \<and> name = ''lost-1'' then Inr replicasetLost
      else if resource = Deployments \<and> name = ''web'' then Inr deploymentWeb
      else if resource = DaemonSets \<and> name = ''agent'' then Inr daemonsetAgent
      else if resource = Jobs \<and> name = ''import-1'' then Inr jobImport
      else if resource = Jobs \<and> name = ''nightly-1'' then Inr jobNightly
      else if resource = StatefulSets \<and> name = ''db''
        then Inl (APIError ''etcdserver: request timed out'')
      else Inl NotFound)"

text \<open>
  A subnet that is being deleted, before and after an update that removes the finalizer
  and also changes the body; and a structural validation that refuses every update.
\<close>

definition exampleFinalizer :: string where
  "exampleFinalizer = ''spiderpool.spidernet.io''"

definition terminatingSubnet :: "string Object" where
  "terminatingSubnet =
     \<lparr>Namespace = [], Name = ''subnet-a'', UID = ''uid-subnet-a'', OwnerReferences = [],
      DeletionTimestamp = Some 1667466000, Finalizers = [exampleFinalizer],
      Body = ''ips: 10.0.0.1-10.0.0.10''\<rparr>"

definition releasedAndChangedSubnet :: "string Object" where
  "releasedAndChangedSubnet =
     terminatingSubnet\<lparr>Finalizers := [], Body := ''ips: 10.0.0.1-10.0.0.5''\<rparr>"

definition refuseEveryUpdate :: "string Object \<Rightarrow> string Object \<Rightarrow> string list" where
  "refuseEveryUpdate oldSubnet newSubnet = [''spec.ips: Forbidden'']"

section \<open>Facts about the string primitives\<close>

lemma Count_Nil: "strings_Count [] sep = 0"
  by (simp add: strings_Count_def)

lemma Count_Cons:
  "strings_Count (c # cs) sep =
     (if c = sep then Suc (strings_Count cs sep) else strings_Count cs sep)"
  by (simp add: strings_Count_def)

lemma Count_zero: "sep \<notin> set s \<Longrightarrow> strings_Count s sep = 0"
  by (induction s) (auto simp: strings_Count_def)

lemma Count_one:
  "sep \<notin> set pre \<Longrightarrow> sep \<notin> set suf \<Longrightarrow> strings_Count (pre @ sep # suf) sep = 1"
  by (induction pre) (auto simp: strings_Count_def filter_empty_conv)

text \<open>A string has exactly one separator when it is a prefix and a suffix without one, around it.\<close>

lemma Count_one_iff:
  "strings_Count s sep = 1 \<longleftrightarrow>
     (\<exists>pre suf. s = pre @ sep # suf \<and> sep \<notin> set pre \<and> sep \<notin> set suf)"
proof
  assume one: "strings_Count s sep = 1"
  have "sep \<in> set s"
    using one Count_zero [of sep s] by (cases "sep \<in> set s") simp_all
  then obtain pre suf where s: "s = pre @ sep # suf" and pre: "sep \<notin> set pre"
    by (auto dest: split_list_first)
  with one have "sep \<notin> set suf"
    by (auto simp: strings_Count_def filter_empty_conv Count_zero)
  with s pre show "\<exists>pre suf. s = pre @ sep # suf \<and> sep \<notin> set pre \<and> sep \<notin> set suf"
    by blast
next
  assume "\<exists>pre suf. s = pre @ sep # suf \<and> sep \<notin> set pre \<and> sep \<notin> set suf"
  then show "strings_Count s sep = 1"
    by (auto simp: Count_one)
qed

lemma Cut_found: "sep \<notin> set pre \<Longrightarrow> strings_Cut (pre @ sep # suf) sep = (pre, suf, True)"
  by (induction pre) (auto simp: strings_Cut_def)

lemma Cut_not_found: "sep \<notin> set s \<Longrightarrow> strings_Cut s sep = (s, [], False)"
  by (simp add: strings_Cut_def)

lemma Split_nonempty: "strings_Split s sep \<noteq> []"
  by (induction s) (auto split: list.splits)

lemma Split_nosep: "sep \<notin> set s \<Longrightarrow> strings_Split s sep = [s]"
  by (induction s) auto

lemma Split_tl_nonempty: "tl (strings_Split (xs @ sep # ys) sep) \<noteq> []"
  by (induction xs) (auto simp: Split_nonempty split: list.splits)

lemma Split_last_append:
  "last (strings_Split (xs @ sep # ys) sep) = last (strings_Split ys sep)"
proof (induction xs)
  case Nil
  show ?case by (simp add: Split_nonempty)
next
  case (Cons c xs)
  show ?case
  proof (cases "strings_Split (xs @ sep # ys) sep")
    case Nil
    then show ?thesis using Split_nonempty by blast
  next
    case (Cons piece pieces)
    then have "pieces \<noteq> []" using Split_tl_nonempty [of xs sep ys] by simp
    then show ?thesis using Cons Cons.IH by simp
  qed
qed

text \<open>The last piece of a split is the text after the last separator.\<close>

lemma Split_last_suffix:
  "sep \<notin> set suf \<Longrightarrow> last (strings_Split (pre @ sep # suf) sep) = suf"
  by (simp add: Split_last_append Split_nosep)

lemma Split_last_index:
  "strings_Split s sep ! (length (strings_Split s sep) - Suc 0) = last (strings_Split s sep)"
  by (simp add: last_conv_nth Split_nonempty)

lemma Atoi_empty: "strconv_Atoi [] = Inl ErrSyntax"
  by (simp add: strconv_Atoi_def)

lemma Atoi_3: "strconv_Atoi ''3'' = Inr 3"
  by (simp add: strconv_Atoi_def isDigit_def digitVal_def)

lemma Atoi_5: "strconv_Atoi ''5'' = Inr 5"
  by (simp add: strconv_Atoi_def isDigit_def digitVal_def)

lemma Atoi_7: "strconv_Atoi ''7'' = Inr 7"
  by (simp add: strconv_Atoi_def isDigit_def digitVal_def)

lemma Atoi_minus_5: "strconv_Atoi ''-5'' = Inr (- 5)"
  by (simp add: strconv_Atoi_def isDigit_def digitVal_def)

lemma Atoi_abc: "strconv_Atoi ''abc'' = Inl ErrSyntax"
  by (simp add: strconv_Atoi_def isDigit_def)

lemma sint_0_iff: "sint (p :: 32 word) = 0 \<longleftrightarrow> p = 0"
  by (rule signed_eq_0_iff)

section \<open>The pool IP number: test vectors\<close>

text \<open>
  C1, where the claim fails. The claim gives \<open>GetPoolIPNumber("3+")\<close> as
  \<open>(true, 3, nil)\<close>. The code keeps the text \<^emph>\<open>after\<close> the plus sign and hands it to
  \<open>strconv.Atoi\<close>; after the plus of \<open>"3+"\<close> there is nothing, so the call returns
  \<open>(false, -1, error)\<close>.
\<close>

theorem GetPoolIPNumber_trailing_plus_counterexample:
  "GetPoolIPNumber ''3+'' = (False, - 1, Some (InvalidInputAtoi ''3+'' ErrSyntax))
   \<and> GetPoolIPNumber ''3+'' \<noteq> (True, 3, None)"
  by (simp add: GetPoolIPNumber_def Count_Cons Count_Nil strings_Cut_def Atoi_empty)

text \<open>
  C1, amended. \<open>GetPoolIPNumber("5")\<close> is \<open>(false, 5, nil)\<close>; the flexible count is
  written with the plus sign in front, \<open>GetPoolIPNumber("+3")\<close> is \<open>(true, 3, nil)\<close>, and
  \<open>"3+"\<close> is an error; \<open>"1+2+"\<close> is an error (two plus signs); \<open>"abc"\<close> is an error
  (not a number).
\<close>

theorem GetPoolIPNumber_vectors:
  "GetPoolIPNumber ''5'' = (False, 5, None)
   \<and> GetPoolIPNumber ''+3'' = (True, 3, None)
   \<and> GetPoolIPNumber ''3+'' = (False, - 1, Some (InvalidInputAtoi ''3+'' ErrSyntax))
   \<and> GetPoolIPNumber ''1+2+'' = (False, - 1, Some (InvalidInput ''1+2+''))
   \<and> GetPoolIPNumber ''abc'' = (False, - 1, Some (InvalidInputAtoi ''abc'' ErrSyntax))"
  by (simp add: GetPoolIPNumber_def Count_Cons Count_Nil strings_Cut_def
      Atoi_empty Atoi_3 Atoi_5 Atoi_abc)

section \<open>The pod number of a job\<close>

text \<open>
  C2, where the claim fails. The claim gives \<open>max(1, parallelism)\<close> when only the
  parallelism is set, a negative parallelism counting as 1. The code tests for 0 only
  (its comment: negative values are ignored, the API server refuses them): with
  parallelism \<open>-1\<close> and no completions it returns \<open>-1\<close>, and \<open>max(1, -1)\<close> is 1.
\<close>

theorem CalculateJobPodNum_negative_counterexample:
  "CalculateJobPodNum (Some (- 1)) None = - 1 \<and> max 1 (sint (- 1 :: 32 word)) = 1"
  by (simp add: CalculateJobPodNum_def)

text \<open>
  C2, amended. \<open>CalculateJobPodNum\<close> returns 1 when both arguments are nil; when only the
  parallelism is set, 1 for parallelism 0 and the parallelism itself otherwise; when the
  completions are set (with or without parallelism), 1 for completions 0 and the
  completions themselves otherwise. For a value that is not negative this is
  \<open>max(1, value)\<close>; a negative value is returned as it is. In particular
  \<open>CalculateJobPodNum(nil, nil) = 1\<close>, \<open>(ptr(0), nil) = 1\<close>, \<open>(ptr(3), nil) = 3\<close> and
  \<open>(ptr(2), ptr(5)) = 5\<close>.
\<close>

theorem CalculateJobPodNum_cases:
  "CalculateJobPodNum None None = 1
   \<and> CalculateJobPodNum (Some p) None = (if p = 0 then 1 else sint p)
   \<and> CalculateJobPodNum None (Some c) = (if c = 0 then 1 else sint c)
   \<and> CalculateJobPodNum (Some p) (Some c) = (if c = 0 then 1 else sint c)
   \<and> (0 \<le> sint p \<longrightarrow> CalculateJobPodNum (Some p) None = max 1 (sint p))
   \<and> (0 \<le> sint c \<longrightarrow> CalculateJobPodNum None (Some c) = max 1 (sint c)
                     \<and> CalculateJobPodNum (Some p) (Some c) = max 1 (sint c))
   \<and> (sint p < 0 \<longrightarrow> CalculateJobPodNum (Some p) None = sint p)
   \<and> (sint c < 0 \<longrightarrow> CalculateJobPodNum None (Some c) = sint c
                     \<and> CalculateJobPodNum (Some p) (Some c) = sint c)
   \<and> CalculateJobPodNum (Some 0) None = 1
   \<and> CalculateJobPodNum (Some 3) None = 3
   \<and> CalculateJobPodNum (Some 2) (Some 5) = 5"
  using sint_0_iff [of p] sint_0_iff [of c]
  by (auto simp add: CalculateJobPodNum_def max_def)

theorem CalculateJobPodNum_cases_witness:
  "CalculateJobPodNum (Some 3) None = max 1 (sint (3 :: 32 word))
   \<and> CalculateJobPodNum None (Some 5) = max 1 (sint (5 :: 32 word))
   \<and> CalculateJobPodNum (Some 3) (Some 5) = max 1 (sint (5 :: 32 word))
   \<and> CalculateJobPodNum (Some (- 2)) None = sint (- 2 :: 32 word)
   \<and> CalculateJobPodNum None (Some (- 7)) = sint (- 7 :: 32 word)
   \<and> CalculateJobPodNum (Some (- 2)) (Some (- 7)) = sint (- 7 :: 32 word)"
  using CalculateJobPodNum_cases [of 3 5] CalculateJobPodNum_cases [of "- 2" "- 7"]
  by simp

section \<open>The name of an automatic pool\<close>

text \<open>
  C3, where the claim fails. Only the last hyphen-separated piece of the UID goes into the
  name. Two UIDs that differ in an earlier piece and end alike give one name, the other
  five components being equal.
\<close>

theorem SubnetPoolName_collision_counterexample:
  "SubnetPoolName ''Deployment'' ''default'' ''web'' 4 ''eth0''
       ''0b7c5e1a-3f2d-4c6b-9a8e-5d4c3b2a1f0e''
     = SubnetPoolName ''Deployment'' ''default'' ''web'' 4 ''eth0''
         ''9f8e7d6c-5b4a-4321-8fed-5d4c3b2a1f0e''
   \<and> ''0b7c5e1a-3f2d-4c6b-9a8e-5d4c3b2a1f0e'' \<noteq> ''9f8e7d6c-5b4a-4321-8fed-5d4c3b2a1f0e''"
  by code_simp

text \<open>
  C3, amended. \<open>SubnetPoolName\<close> is deterministic: equal inputs give equal names. When
  the other five components are equal, two names are equal exactly when the lower-cased
  last hyphen-separated pieces of the two UIDs are equal: the names differ whenever these
  pieces differ, and only then.
\<close>

theorem SubnetPoolName_deterministic_and_tail:
  "(k = k' \<and> ns = ns' \<and> n = n' \<and> v = v' \<and> i = i' \<and> u1 = u1' \<longrightarrow>
      SubnetPoolName k ns n v i u1 = SubnetPoolName k' ns' n' v' i' u1')
   \<and> ((SubnetPoolName k ns n v i u1 = SubnetPoolName k ns n v i u2) =
        (strings_ToLower (last (strings_Split u1 CHR ''-''))
          = strings_ToLower (last (strings_Split u2 CHR ''-''))))"
  by (simp add: SubnetPoolName_def Let_def Split_last_index)

theorem SubnetPoolName_deterministic_and_tail_witness:
  "SubnetPoolName ''Deployment'' ''default'' ''web'' 4 ''eth0'' ''9a8e-5d4c3b2a1f0e''
     = SubnetPoolName ''Deployment'' ''default'' ''web'' 4 ''eth0'' ''9a8e-5d4c3b2a1f0e''
   \<and> SubnetPoolName ''Deployment'' ''default'' ''web'' 4 ''eth0'' ''9a8e-5d4c3b2a1f0e''
     \<noteq> SubnetPoolName ''Deployment'' ''default'' ''web'' 4 ''eth0'' ''9a8e-5d4c3b2a1f0f''"
proof -
  have tails: "strings_ToLower (last (strings_Split ''9a8e-5d4c3b2a1f0e'' CHR ''-''))
      \<noteq> strings_ToLower (last (strings_Split ''9a8e-5d4c3b2a1f0f'' CHR ''-''))"
    by code_simp
  show ?thesis
    using tails
      SubnetPoolName_deterministic_and_tail
        [of "''Deployment''" "''Deployment''" "''default''" "''default''" "''web''" "''web''"
            4 4 "''eth0''" "''eth0''" "''9a8e-5d4c3b2a1f0e''" "''9a8e-5d4c3b2a1f0e''"
            "''9a8e-5d4c3b2a1f0f''"]
    by simp
qed

section \<open>The default IPPool mode\<close>

text \<open>
  C7. \<open>IsDefaultIPPoolMode(nil)\<close> is true; for a configuration with a populated
  \<open>SingleSubnet\<close> or a non-empty \<open>MultipleSubnets\<close> it is false; in the last branch (a
  configuration with neither) it is false too: the function is true if and only if its
  argument is nil.
\<close>

theorem IsDefaultIPPoolMode_iff_nil:
  "IsDefaultIPPoolMode None
   \<and> (SingleSubnet cfg \<noteq> None \<or> MultipleSubnets cfg \<noteq> [] \<longrightarrow>
        \<not> IsDefaultIPPoolMode (Some cfg))
   \<and> (SingleSubnet cfg = None \<and> MultipleSubnets cfg = [] \<longrightarrow>
        \<not> IsDefaultIPPoolMode (Some cfg))
   \<and> (IsDefaultIPPoolMode subnetConfig \<longleftrightarrow> subnetConfig = None)"
  by (simp add: IsDefaultIPPoolMode_def)

theorem IsDefaultIPPoolMode_iff_nil_witness:
  "\<not> IsDefaultIPPoolMode
       (Some (zeroPodSubnetAnnoConfig
                \<lparr>SingleSubnet := Some \<lparr>Interface = ''eth0'', IPv4 = [''subnet-a''], IPv6 = []\<rparr>\<rparr>))
   \<and> \<not> IsDefaultIPPoolMode (Some zeroPodSubnetAnnoConfig)
   \<and> IsDefaultIPPoolMode None"
  using
    IsDefaultIPPoolMode_iff_nil
      [of "zeroPodSubnetAnnoConfig
             \<lparr>SingleSubnet := Some \<lparr>Interface = ''eth0'', IPv4 = [''subnet-a''], IPv6 = []\<rparr>\<rparr>"
          None]
    IsDefaultIPPoolMode_iff_nil [of zeroPodSubnetAnnoConfig None]
  by (simp add: zeroPodSubnetAnnoConfig_def)

section \<open>Duplicate detection\<close>

text \<open>On a sorted array, two equal neighbours exist exactly when some element repeats.\<close>

lemma adjacentEqual_sorted: "sorted xs \<Longrightarrow> adjacentEqual xs \<longleftrightarrow> \<not> distinct xs"
  by (induction xs rule: adjacentEqual.induct) (auto simp: order_antisym)

lemma containsDuplicate_iff: "containsDuplicate arr \<longleftrightarrow> \<not> distinct arr"
  by (simp add: containsDuplicate_def adjacentEqual_sorted)

lemma distinct_map_filter_nth:
  "distinct (map f (filter P xs)) \<Longrightarrow> i < j \<Longrightarrow> j < length xs \<Longrightarrow> P (xs ! i) \<Longrightarrow> P (xs ! j)
   \<Longrightarrow> f (xs ! i) \<noteq> f (xs ! j)"
proof (induction xs arbitrary: i j)
  case Nil
  then show ?case by simp
next
  case (Cons x xs)
  obtain j' where j: "j = Suc j'" using Cons.prems(2) by (cases j) auto
  show ?case
  proof (cases i)
    case 0
    have "xs ! j' \<in> set (filter P xs)" using Cons.prems j by simp
    then have "f (xs ! j') \<in> f ` set (filter P xs)" by (rule imageI)
    then show ?thesis using Cons.prems 0 j by auto
  next
    case (Suc i')
    then show ?thesis using Cons.IH [of i' j'] Cons.prems j by (auto split: if_splits)
  qed
qed

lemma subnetsLoop_arrays:
  "subnetsLoop seen items ifs v4 v6 = (items', ifs', v4', v6', None) \<Longrightarrow>
     ifs' = ifs @ map Interface items
     \<and> v4' = v4 @ map (\<lambda>it. hd (IPv4 it)) (filter (\<lambda>it. IPv4 it \<noteq> []) items)
     \<and> v6' = v6 @ map (\<lambda>it. hd (IPv6 it)) (filter (\<lambda>it. IPv6 it \<noteq> []) items)"
proof (induction items arbitrary: seen ifs v4 v6)
  case Nil
  then show ?case by simp
next
  case (Cons item rest)
  show ?case
    using Cons.prems
    by (auto simp: Let_def split: if_splits dest!: Cons.IH)
qed


lemma mutate_duplicates:
  assumes "i < j" "j < length (MultipleSubnets cfg)"
    and "IPv4 (MultipleSubnets cfg ! i) \<noteq> [] \<and> IPv4 (MultipleSubnets cfg ! j) \<noteq> []
           \<and> hd (IPv4 (MultipleSubnets cfg ! i)) = hd (IPv4 (MultipleSubnets cfg ! j))
         \<or> IPv6 (MultipleSubnets cfg ! i) \<noteq> [] \<and> IPv6 (MultipleSubnets cfg ! j) \<noteq> []
           \<and> hd (IPv6 (MultipleSubnets cfg ! i)) = hd (IPv6 (MultipleSubnets cfg ! j))
         \<or> Interface (MultipleSubnets cfg ! i) = Interface (MultipleSubnets cfg ! j)"
  shows "snd (mutateAndValidateSubnetAnno cfg) \<noteq> None"
proof -
  let ?items = "MultipleSubnets cfg"
  obtain items' ifs v4 v6 lerr where
    loop: "subnetsLoop [] ?items [] [] [] = (items', ifs, v4, v6, lerr)"
    by (metis prod_cases5)
  have ne: "length ?items \<noteq> 0" using assms(1,2) by auto
  show ?thesis
  proof (cases lerr)
    case (Some e)
    then show ?thesis using loop ne by (simp add: mutateAndValidateSubnetAnno_def)
  next
    case None
    from subnetsLoop_arrays [OF loop [unfolded None]]
    have ifs: "ifs = map Interface ?items"
      and v4: "v4 = map (\<lambda>it. hd (IPv4 it)) (filter (\<lambda>it. IPv4 it \<noteq> []) ?items)"
      and v6: "v6 = map (\<lambda>it. hd (IPv6 it)) (filter (\<lambda>it. IPv6 it \<noteq> []) ?items)"
      by simp_all
    have "\<not> distinct v4 \<or> \<not> distinct v6 \<or> \<not> distinct ifs"
    proof (rule ccontr)
      assume "\<not> (\<not> distinct v4 \<or> \<not> distinct v6 \<or> \<not> distinct ifs)"
      then have d4: "distinct v4" and d6: "distinct v6" and di: "distinct ifs" by auto
      have n4: "\<not> (IPv4 (?items ! i) \<noteq> [] \<and> IPv4 (?items ! j) \<noteq> []
           \<and> hd (IPv4 (?items ! i)) = hd (IPv4 (?items ! j)))"
        using distinct_map_filter_nth [OF d4 [unfolded v4] assms(1,2)] by blast
      have n6: "\<not> (IPv6 (?items ! i) \<noteq> [] \<and> IPv6 (?items ! j) \<noteq> []
           \<and> hd (IPv6 (?items ! i)) = hd (IPv6 (?items ! j)))"
        using distinct_map_filter_nth [OF d6 [unfolded v6] assms(1,2)] by blast
      have "Interface (?items ! i) \<noteq> Interface (?items ! j)"
        using di assms(1,2) unfolding ifs distinct_conv_nth by (metis length_map nth_map order.strict_trans nat_neq_iff)
      with n4 n6 assms(3) show False by blast
    qed
    then show ?thesis using loop None ne
      by (auto simp add: mutateAndValidateSubnetAnno_def containsDuplicate_iff Let_def)
  qed
qed



lemma reclaim_one_of:
  "fst (GetSubnetAnnoConfig_reclaim anno cfg) = None \<longleftrightarrow>
   snd (GetSubnetAnnoConfig_reclaim anno cfg) \<noteq> None"
  by (auto simp: GetSubnetAnnoConfig_reclaim_def split: prod.splits)

lemma ipNumber_one_of:
  "fst (GetSubnetAnnoConfig_ipNumber env anno cfg) = None \<longleftrightarrow>
   snd (GetSubnetAnnoConfig_ipNumber env anno cfg) \<noteq> None"
  by (auto simp: GetSubnetAnnoConfig_ipNumber_def reclaim_one_of split: prod.splits option.splits)

lemma reclaim_mutate_error:
  "(\<And>b. snd (mutateAndValidateSubnetAnno (cfg\<lparr>ReclaimIPPool := b\<rparr>)) \<noteq> None) \<Longrightarrow>
   snd (GetSubnetAnnoConfig_reclaim anno cfg) \<noteq> None"
proof -
  assume all: "\<And>b. snd (mutateAndValidateSubnetAnno (cfg\<lparr>ReclaimIPPool := b\<rparr>)) \<noteq> None"
  obtain reclaimPool err where sr: "ShouldReclaimIPPool anno = (reclaimPool, err)"
    by (cases "ShouldReclaimIPPool anno")
  obtain mutated err' where
    mu: "mutateAndValidateSubnetAnno (cfg\<lparr>ReclaimIPPool := reclaimPool\<rparr>) = (mutated, err')"
    by (cases "mutateAndValidateSubnetAnno (cfg\<lparr>ReclaimIPPool := reclaimPool\<rparr>)")
  have "err' \<noteq> None" using all [of reclaimPool] mu by simp
  then show ?thesis using sr mu by (simp add: GetSubnetAnnoConfig_reclaim_def)
qed

lemma ipNumber_reclaim_error:
  "(\<And>cfg'. MultipleSubnets cfg' = MultipleSubnets cfg \<Longrightarrow>
      snd (GetSubnetAnnoConfig_reclaim anno cfg') \<noteq> None) \<Longrightarrow>
   snd (GetSubnetAnnoConfig_ipNumber env anno cfg) \<noteq> None"
  by (auto simp: GetSubnetAnnoConfig_ipNumber_def split: prod.splits option.splits)



lemmas example_annotation_defs =
  subnetsOnTwoInterfaces_def subnetsSharingOne_def subnetForOneInterface_def
  exampleCollaborators_def annotationsWithBoth_def annotationsSharingOne_def
  annotationsNegative_def AnnoSpiderSubnets_def AnnoSpiderSubnet_def
  AnnoSpiderSubnetPoolIPNumber_def AnnoSpiderSubnetReclaimIPPool_def


lemma run_annotationsSharingOne:
  "GetSubnetAnnoConfig exampleCollaborators annotationsSharingOne = (None, Some DuplicateSubnet)"
  by (simp add: GetSubnetAnnoConfig_def GetSubnetAnnoConfig_ipNumber_def
      GetSubnetAnnoConfig_reclaim_def ShouldReclaimIPPool_def mutateAndValidateSubnetAnno_def
      containsDuplicate_iff zeroPodSubnetAnnoConfig_def example_annotation_defs Let_def)

section \<open>The annotation resolver rejects duplicates\<close>

text \<open>
  C6. Whenever the decoded \<open>MultipleSubnets\<close> list has two entries \<open>i < j\<close> with the
  same IPv4 value, the same IPv6 value (the value of an entry being the first element of
  its list, for a list that is not empty) or the same interface name,
  \<open>GetSubnetAnnoConfig\<close> returns no configuration and an error. The comparison of
  \<open>containsDuplicate\<close> is equality of strings: it holds exactly when the array is not
  \<open>distinct\<close>.
\<close>

theorem GetSubnetAnnoConfig_rejects_duplicates:
  assumes "podAnnotations AnnoSpiderSubnets = Some subnets"
    and "unmarshalSubnets env subnets = Inr items"
    and "i < j" and "j < length items"
    and "IPv4 (items ! i) \<noteq> [] \<and> IPv4 (items ! j) \<noteq> []
           \<and> hd (IPv4 (items ! i)) = hd (IPv4 (items ! j))
         \<or> IPv6 (items ! i) \<noteq> [] \<and> IPv6 (items ! j) \<noteq> []
           \<and> hd (IPv6 (items ! i)) = hd (IPv6 (items ! j))
         \<or> Interface (items ! i) = Interface (items ! j)"
  shows "fst (GetSubnetAnnoConfig env podAnnotations) = None
         \<and> snd (GetSubnetAnnoConfig env podAnnotations) \<noteq> None
         \<and> (containsDuplicate arr \<longleftrightarrow> \<not> distinct arr)"
proof -
  let ?cfg = "zeroPodSubnetAnnoConfig\<lparr>MultipleSubnets := items\<rparr>"
  have mut: "snd (mutateAndValidateSubnetAnno cfg') \<noteq> None" if "MultipleSubnets cfg' = items" for cfg'
    using mutate_duplicates [of i j cfg'] assms(3-5) that by simp
  have "snd (GetSubnetAnnoConfig_reclaim podAnnotations cfg') \<noteq> None"
    if "MultipleSubnets cfg' = MultipleSubnets ?cfg" for cfg'
    using that by (intro reclaim_mutate_error mut) simp
  then have "snd (GetSubnetAnnoConfig_ipNumber env podAnnotations ?cfg) \<noteq> None"
    by (rule ipNumber_reclaim_error)
  then have err: "snd (GetSubnetAnnoConfig env podAnnotations) \<noteq> None"
    using assms(1,2) by (simp add: GetSubnetAnnoConfig_def)
  moreover have "fst (GetSubnetAnnoConfig env podAnnotations) = None"
    using err assms(1,2) by (simp add: GetSubnetAnnoConfig_def ipNumber_one_of)
  ultimately show ?thesis by (simp add: containsDuplicate_iff)
qed

theorem GetSubnetAnnoConfig_rejects_duplicates_witness:
  "fst (GetSubnetAnnoConfig exampleCollaborators annotationsSharingOne) = None
   \<and> snd (GetSubnetAnnoConfig exampleCollaborators annotationsSharingOne) \<noteq> None
   \<and> \<not> containsDuplicate [''eth0'', ''ETH0'']"
  using GetSubnetAnnoConfig_rejects_duplicates
    [of annotationsSharingOne subnetsSharingOne exampleCollaborators
        "[\<lparr>Interface = ''eth0'', IPv4 = [''subnet-a''], IPv6 = []\<rparr>,
          \<lparr>Interface = ''eth1'', IPv4 = [''subnet-a'', ''subnet-b''], IPv6 = []\<rparr>]"
        0 1 "[''eth0'', ''ETH0'']"]
  by (simp add: example_annotation_defs)

section \<open>The contract of the annotation resolver\<close>























section \<open>The pool IP number: what is parsed\<close>

lemma ipNumber_negative:
  "podAnnotations AnnoSpiderSubnetPoolIPNumber = Some ''-5'' \<Longrightarrow>
   GetSubnetAnnoConfig_ipNumber env podAnnotations cfg = (None, Some NegativeIPNumber)"
  by (simp add: GetSubnetAnnoConfig_ipNumber_def GetPoolIPNumber_def Count_Cons Count_Nil strings_Cut_def Atoi_minus_5)


text \<open>
  C10. For an input with exactly one plus sign (a prefix and a suffix without one, around
  it), \<open>GetPoolIPNumber\<close> parses the suffix alone, whatever the prefix: \<open>"abc+7"\<close> and
  \<open>"5+7"\<close> both give \<open>(true, 7, nil)\<close>, and \<open>"7+"\<close> is an error, its suffix being
  empty. \<open>"-5"\<close> parses as \<open>(false, -5, nil)\<close>: the negative count is refused by
  \<open>GetSubnetAnnoConfig\<close>, once a subnet annotation has been decoded.
\<close>

theorem GetPoolIPNumber_parses_suffix:
  "(CHR ''+'' \<notin> set pre \<and> CHR ''+'' \<notin> set suf \<longrightarrow>
      strings_Count (pre @ CHR ''+'' # suf) CHR ''+'' = 1
      \<and> GetPoolIPNumber (pre @ CHR ''+'' # suf) =
          (case strconv_Atoi suf of
             Inl err \<Rightarrow> (False, - 1, Some (InvalidInputAtoi (pre @ CHR ''+'' # suf) err))
           | Inr n \<Rightarrow> (True, n, None)))
   \<and> GetPoolIPNumber ''abc+7'' = (True, 7, None)
   \<and> GetPoolIPNumber ''5+7'' = (True, 7, None)
   \<and> GetPoolIPNumber ''7+'' = (False, - 1, Some (InvalidInputAtoi ''7+'' ErrSyntax))
   \<and> GetPoolIPNumber ''-5'' = (False, - 5, None)
   \<and> (podAnnotations AnnoSpiderSubnetPoolIPNumber = Some ''-5''
        \<and> (podAnnotations AnnoSpiderSubnets = Some subnets \<and> unmarshalSubnets env subnets = Inr items
            \<or> podAnnotations AnnoSpiderSubnets = None \<and> podAnnotations AnnoSpiderSubnet = Some subnet
               \<and> unmarshalSubnet env subnet = Inr item) \<longrightarrow>
        GetSubnetAnnoConfig env podAnnotations = (None, Some NegativeIPNumber))"
proof (intro conjI)
  show "CHR ''+'' \<notin> set pre \<and> CHR ''+'' \<notin> set suf \<longrightarrow>
      strings_Count (pre @ CHR ''+'' # suf) CHR ''+'' = 1
      \<and> GetPoolIPNumber (pre @ CHR ''+'' # suf) =
          (case strconv_Atoi suf of
             Inl err \<Rightarrow> (False, - 1, Some (InvalidInputAtoi (pre @ CHR ''+'' # suf) err))
           | Inr n \<Rightarrow> (True, n, None))"
    by (simp add: GetPoolIPNumber_def Count_one Cut_found)
  show "GetPoolIPNumber ''abc+7'' = (True, 7, None)"
    by (simp add: GetPoolIPNumber_def Count_Cons Count_Nil strings_Cut_def Atoi_7)
  show "GetPoolIPNumber ''5+7'' = (True, 7, None)"
    by (simp add: GetPoolIPNumber_def Count_Cons Count_Nil strings_Cut_def Atoi_7)
  show "GetPoolIPNumber ''7+'' = (False, - 1, Some (InvalidInputAtoi ''7+'' ErrSyntax))"
    by (simp add: GetPoolIPNumber_def Count_Cons Count_Nil strings_Cut_def Atoi_empty)
  show "GetPoolIPNumber ''-5'' = (False, - 5, None)"
    by (simp add: GetPoolIPNumber_def Count_Cons Count_Nil strings_Cut_def Atoi_minus_5)
  show "podAnnotations AnnoSpiderSubnetPoolIPNumber = Some ''-5''
        \<and> (podAnnotations AnnoSpiderSubnets = Some subnets \<and> unmarshalSubnets env subnets = Inr items
            \<or> podAnnotations AnnoSpiderSubnets = None \<and> podAnnotations AnnoSpiderSubnet = Some subnet
               \<and> unmarshalSubnet env subnet = Inr item) \<longrightarrow>
        GetSubnetAnnoConfig env podAnnotations = (None, Some NegativeIPNumber)"
    by (auto simp: GetSubnetAnnoConfig_def ipNumber_negative)
qed

theorem GetPoolIPNumber_parses_suffix_witness:
  "strings_Count ''abc+7'' CHR ''+'' = 1
   \<and> GetPoolIPNumber ''abc+7'' = (True, 7, None)
   \<and> GetSubnetAnnoConfig exampleCollaborators annotationsNegative = (None, Some NegativeIPNumber)"
  using GetPoolIPNumber_parses_suffix
    [of "''abc''" "''7''" annotationsNegative subnetsOnTwoInterfaces exampleCollaborators
        "[\<lparr>Interface = ''eth0'', IPv4 = [''subnet-a''], IPv6 = []\<rparr>,
          \<lparr>Interface = ''eth1'', IPv4 = [''subnet-b''], IPv6 = [''subnet-c'']\<rparr>]"]
  by (simp add: example_annotation_defs Atoi_7)

section \<open>The top controller of a pod: one equation for each path\<close>

lemmas Kind_defs = KindPod_def KindDeployment_def KindStatefulSet_def KindDaemonSet_def
  KindUnknown_def KindReplicaSet_def KindJob_def KindCronJob_def

lemma top_no_owner:
  "GetControllerOf pod = None \<Longrightarrow>
   GetPodTopController client pod =
     ((\<lparr>topKind = KindPod, topNamespace = Namespace pod, topName = Name pod,
        topUID = UID pod, APP = Some (AppPod pod)\<rparr>, None), [])"
  by (simp add: GetPodTopController_def)

lemma top_third_party:
  "GetControllerOf pod = Some podOwner \<Longrightarrow>
   ownerAPIVersion podOwner \<noteq> appsv1_GroupVersion \<Longrightarrow>
   ownerAPIVersion podOwner \<noteq> batchv1_GroupVersion \<Longrightarrow>
   GetPodTopController client pod =
     ((\<lparr>topKind = KindUnknown, topNamespace = Namespace pod, topName = ownerName podOwner,
        topUID = ownerUID podOwner, APP = None\<rparr>, None), [])"
  by (simp add: GetPodTopController_def)

lemma top_replicaset_failed:
  "GetControllerOf pod = Some podOwner \<Longrightarrow>
   ownerAPIVersion podOwner = appsv1_GroupVersion
     \<or> ownerAPIVersion podOwner = batchv1_GroupVersion \<Longrightarrow>
   ownerKind podOwner = KindReplicaSet \<Longrightarrow>
   client ReplicaSets (Namespace pod) (ownerName podOwner) = Inl err \<Longrightarrow>
   GetPodTopController client pod =
     ((zeroPodTopController, Some (OwnerLookupFailed (Namespace pod) (Name pod) err)),
      [Fetched ReplicaSets (Namespace pod) (ownerName podOwner)])"
  by (cases "ownerAPIVersion podOwner = appsv1_GroupVersion")
     (simp_all add: GetPodTopController_def Let_def)

lemma top_replicaset_alone:
  "GetControllerOf pod = Some podOwner \<Longrightarrow>
   ownerAPIVersion podOwner = appsv1_GroupVersion
     \<or> ownerAPIVersion podOwner = batchv1_GroupVersion \<Longrightarrow>
   ownerKind podOwner = KindReplicaSet \<Longrightarrow>
   client ReplicaSets (Namespace pod) (ownerName podOwner) = Inr replicaset \<Longrightarrow>
   GetControllerOf replicaset = None \<Longrightarrow>
   GetPodTopController client pod =
     ((\<lparr>topKind = KindReplicaSet, topNamespace = Namespace replicaset,
        topName = Name replicaset, topUID = UID replicaset,
        APP = Some (AppReplicaSet replicaset)\<rparr>, None),
      [Fetched ReplicaSets (Namespace pod) (ownerName podOwner)])"
  by (cases "ownerAPIVersion podOwner = appsv1_GroupVersion")
     (simp_all add: GetPodTopController_def Let_def)

lemma top_deployment_failed:
  "GetControllerOf pod = Some podOwner \<Longrightarrow>
   ownerAPIVersion podOwner = appsv1_GroupVersion
     \<or> ownerAPIVersion podOwner = batchv1_GroupVersion \<Longrightarrow>
   ownerKind podOwner = KindReplicaSet \<Longrightarrow>
   client ReplicaSets (Namespace pod) (ownerName podOwner) = Inr replicaset \<Longrightarrow>
   GetControllerOf replicaset = Some replicasetOwner \<Longrightarrow>
   ownerKind replicasetOwner = KindDeployment \<Longrightarrow>
   client Deployments (Namespace replicaset) (ownerName replicasetOwner) = Inl err \<Longrightarrow>
   GetPodTopController client pod =
     ((zeroPodTopController, Some (OwnerLookupFailed (Namespace pod) (Name pod) err)),
      [Fetched ReplicaSets (Namespace pod) (ownerName podOwner),
       Fetched Deployments (Namespace replicaset) (ownerName replicasetOwner)])"
  by (cases "ownerAPIVersion podOwner = appsv1_GroupVersion")
     (simp_all add: GetPodTopController_def Let_def)

lemma top_deployment:
  "GetControllerOf pod = Some podOwner \<Longrightarrow>
   ownerAPIVersion podOwner = appsv1_GroupVersion
     \<or> ownerAPIVersion podOwner = batchv1_GroupVersion \<Longrightarrow>
   ownerKind podOwner = KindReplicaSet \<Longrightarrow>
   client ReplicaSets (Namespace pod) (ownerName podOwner) = Inr replicaset \<Longrightarrow>
   GetControllerOf replicaset = Some replicasetOwner \<Longrightarrow>
   ownerKind replicasetOwner = KindDeployment \<Longrightarrow>
   client Deployments (Namespace replicaset) (ownerName replicasetOwner) = Inr deployment \<Longrightarrow>
   GetPodTopController client pod =
     ((\<lparr>topKind = KindDeployment, topNamespace = Namespace deployment,
        topName = Name deployment, topUID = UID deployment,
        APP = Some (AppDeployment deployment)\<rparr>, None),
      [Fetched ReplicaSets (Namespace pod) (ownerName podOwner),
       Fetched Deployments (Namespace replicaset) (ownerName replicasetOwner)])"
  by (cases "ownerAPIVersion podOwner = appsv1_GroupVersion")
     (simp_all add: GetPodTopController_def Let_def)

lemma top_replicaset_unknown_owner:
  "GetControllerOf pod = Some podOwner \<Longrightarrow>
   ownerAPIVersion podOwner = appsv1_GroupVersion
     \<or> ownerAPIVersion podOwner = batchv1_GroupVersion \<Longrightarrow>
   ownerKind podOwner = KindReplicaSet \<Longrightarrow>
   client ReplicaSets (Namespace pod) (ownerName podOwner) = Inr replicaset \<Longrightarrow>
   GetControllerOf replicaset = Some replicasetOwner \<Longrightarrow>
   ownerKind replicasetOwner \<noteq> KindDeployment \<Longrightarrow>
   GetPodTopController client pod =
     ((\<lparr>topKind = KindUnknown, topNamespace = Namespace pod,
        topName = ownerName replicasetOwner, topUID = ownerUID replicasetOwner,
        APP = None\<rparr>, None),
      [Fetched ReplicaSets (Namespace pod) (ownerName podOwner),
       Warned (ownerKind replicasetOwner) (Namespace pod) (Name pod)])"
  by (cases "ownerAPIVersion podOwner = appsv1_GroupVersion")
     (simp_all add: GetPodTopController_def Let_def)

lemma top_job_failed:
  "GetControllerOf pod = Some podOwner \<Longrightarrow>
   ownerAPIVersion podOwner = appsv1_GroupVersion
     \<or> ownerAPIVersion podOwner = batchv1_GroupVersion \<Longrightarrow>
   ownerKind podOwner = KindJob \<Longrightarrow>
   client Jobs (Namespace pod) (ownerName podOwner) = Inl err \<Longrightarrow>
   GetPodTopController client pod =
     ((zeroPodTopController, Some (OwnerLookupFailed (Namespace pod) (Name pod) err)),
      [Fetched Jobs (Namespace pod) (ownerName podOwner)])"
  by (cases "ownerAPIVersion podOwner = appsv1_GroupVersion")
     (simp_all add: GetPodTopController_def Let_def Kind_defs)

lemma top_job_alone:
  "GetControllerOf pod = Some podOwner \<Longrightarrow>
   ownerAPIVersion podOwner = appsv1_GroupVersion
     \<or> ownerAPIVersion podOwner = batchv1_GroupVersion \<Longrightarrow>
   ownerKind podOwner = KindJob \<Longrightarrow>
   client Jobs (Namespace pod) (ownerName podOwner) = Inr job \<Longrightarrow>
   GetControllerOf job = None \<Longrightarrow>
   GetPodTopController client pod =
     ((\<lparr>topKind = KindJob, topNamespace = Namespace job, topName = Name job,
        topUID = UID job, APP = Some (AppJob job)\<rparr>, None),
      [Fetched Jobs (Namespace pod) (ownerName podOwner)])"
  by (cases "ownerAPIVersion podOwner = appsv1_GroupVersion")
     (simp_all add: GetPodTopController_def Let_def Kind_defs)

lemma top_cronjob_failed:
  "GetControllerOf pod = Some podOwner \<Longrightarrow>
   ownerAPIVersion podOwner = appsv1_GroupVersion
     \<or> ownerAPIVersion podOwner = batchv1_GroupVersion \<Longrightarrow>
   ownerKind podOwner = KindJob \<Longrightarrow>
   client Jobs (Namespace pod) (ownerName podOwner) = Inr job \<Longrightarrow>
   GetControllerOf job = Some jobOwner \<Longrightarrow>
   ownerKind jobOwner = KindCronJob \<Longrightarrow>
   client CronJobs (Namespace job) (ownerName jobOwner) = Inl err \<Longrightarrow>
   GetPodTopController client pod =
     ((zeroPodTopController, Some (OwnerLookupFailed (Namespace pod) (Name pod) err)),
      [Fetched Jobs (Namespace pod) (ownerName podOwner),
       Fetched CronJobs (Namespace job) (ownerName jobOwner)])"
  by (cases "ownerAPIVersion podOwner = appsv1_GroupVersion")
     (simp_all add: GetPodTopController_def Let_def Kind_defs)

lemma top_cronjob:
  "GetControllerOf pod = Some podOwner \<Longrightarrow>
   ownerAPIVersion podOwner = appsv1_GroupVersion
     \<or> ownerAPIVersion podOwner = batchv1_GroupVersion \<Longrightarrow>
   ownerKind podOwner = KindJob \<Longrightarrow>
   client Jobs (Namespace pod) (ownerName podOwner) = Inr job \<Longrightarrow>
   GetControllerOf job = Some jobOwner \<Longrightarrow>
   ownerKind jobOwner = KindCronJob \<Longrightarrow>
   client CronJobs (Namespace job) (ownerName jobOwner) = Inr cronJob \<Longrightarrow>
   GetPodTopController client pod =
     ((\<lparr>topKind = KindCronJob, topNamespace = Namespace cronJob, topName = Name cronJob,
        topUID = UID cronJob, APP = Some (AppCronJob cronJob)\<rparr>, None),
      [Fetched Jobs (Namespace pod) (ownerName podOwner),
       Fetched CronJobs (Namespace job) (ownerName jobOwner)])"
  by (cases "ownerAPIVersion podOwner = appsv1_GroupVersion")
     (simp_all add: GetPodTopController_def Let_def Kind_defs)

lemma top_job_unknown_owner:
  "GetControllerOf pod = Some podOwner \<Longrightarrow>
   ownerAPIVersion podOwner = appsv1_GroupVersion
     \<or> ownerAPIVersion podOwner = batchv1_GroupVersion \<Longrightarrow>
   ownerKind podOwner = KindJob \<Longrightarrow>
   client Jobs (Namespace pod) (ownerName podOwner) = Inr job \<Longrightarrow>
   GetControllerOf job = Some jobOwner \<Longrightarrow>
   ownerKind jobOwner \<noteq> KindCronJob \<Longrightarrow>
   GetPodTopController client pod =
     ((\<lparr>topKind = KindUnknown, topNamespace = Namespace job, topName = ownerName jobOwner,
        topUID = ownerUID jobOwner, APP = None\<rparr>, None),
      [Fetched Jobs (Namespace pod) (ownerName podOwner),
       Warned (ownerKind jobOwner) (Namespace pod) (Name pod)])"
  by (cases "ownerAPIVersion podOwner = appsv1_GroupVersion")
     (simp_all add: GetPodTopController_def Let_def Kind_defs)

lemma top_daemonset_failed:
  "GetControllerOf pod = Some podOwner \<Longrightarrow>
   ownerAPIVersion podOwner = appsv1_GroupVersion
     \<or> ownerAPIVersion podOwner = batchv1_GroupVersion \<Longrightarrow>
   ownerKind podOwner = KindDaemonSet \<Longrightarrow>
   client DaemonSets (Namespace pod) (ownerName podOwner) = Inl err \<Longrightarrow>
   GetPodTopController client pod =
     ((zeroPodTopController, Some (OwnerLookupFailed (Namespace pod) (Name pod) err)),
      [Fetched DaemonSets (Namespace pod) (ownerName podOwner)])"
  by (cases "ownerAPIVersion podOwner = appsv1_GroupVersion")
     (simp_all add: GetPodTopController_def Let_def Kind_defs)

lemma top_daemonset:
  "GetControllerOf pod = Some podOwner \<Longrightarrow>
   ownerAPIVersion podOwner = appsv1_GroupVersion
     \<or> ownerAPIVersion podOwner = batchv1_GroupVersion \<Longrightarrow>
   ownerKind podOwner = KindDaemonSet \<Longrightarrow>
   client DaemonSets (Namespace pod) (ownerName podOwner) = Inr daemonSet \<Longrightarrow>
   GetPodTopController client pod =
     ((\<lparr>topKind = KindDaemonSet, topNamespace = Namespace daemonSet,
        topName = Name daemonSet, topUID = UID daemonSet,
        APP = Some (AppDaemonSet daemonSet)\<rparr>, None),
      [Fetched DaemonSets (Namespace pod) (ownerName podOwner)])"
  by (cases "ownerAPIVersion podOwner = appsv1_GroupVersion")
     (simp_all add: GetPodTopController_def Let_def Kind_defs)

lemma top_statefulset_failed:
  "GetControllerOf pod = Some podOwner \<Longrightarrow>
   ownerAPIVersion podOwner = appsv1_GroupVersion
     \<or> ownerAPIVersion podOwner = batchv1_GroupVersion \<Longrightarrow>
   ownerKind podOwner = KindStatefulSet \<Longrightarrow>
   client StatefulSets (Namespace pod) (ownerName podOwner) = Inl err \<Longrightarrow>
   GetPodTopController client pod =
     ((zeroPodTopController, Some (OwnerLookupFailed (Namespace pod) (Name pod) err)),
      [Fetched StatefulSets (Namespace pod) (ownerName podOwner)])"
  by (cases "ownerAPIVersion podOwner = appsv1_GroupVersion")
     (simp_all add: GetPodTopController_def Let_def Kind_defs)

lemma top_statefulset:
  "GetControllerOf pod = Some podOwner \<Longrightarrow>
   ownerAPIVersion podOwner = appsv1_GroupVersion
     \<or> ownerAPIVersion podOwner = batchv1_GroupVersion \<Longrightarrow>
   ownerKind podOwner = KindStatefulSet \<Longrightarrow>
   client StatefulSets (Namespace pod) (ownerName podOwner) = Inr statefulSet \<Longrightarrow>
   GetPodTopController client pod =
     ((\<lparr>topKind = KindStatefulSet, topNamespace = Namespace statefulSet,
        topName = Name statefulSet, topUID = UID statefulSet,
        APP = Some (AppStatefulSet statefulSet)\<rparr>, None),
      [Fetched StatefulSets (Namespace pod) (ownerName podOwner)])"
  by (cases "ownerAPIVersion podOwner = appsv1_GroupVersion")
     (simp_all add: GetPodTopController_def Let_def Kind_defs)

lemma top_other_kind:
  "GetControllerOf pod = Some podOwner \<Longrightarrow>
   ownerAPIVersion podOwner = appsv1_GroupVersion
     \<or> ownerAPIVersion podOwner = batchv1_GroupVersion \<Longrightarrow>
   ownerKind podOwner \<noteq> KindReplicaSet \<Longrightarrow> ownerKind podOwner \<noteq> KindJob \<Longrightarrow>
   ownerKind podOwner \<noteq> KindDaemonSet \<Longrightarrow> ownerKind podOwner \<noteq> KindStatefulSet \<Longrightarrow>
   GetPodTopController client pod =
     ((\<lparr>topKind = KindUnknown, topNamespace = Namespace pod, topName = ownerName podOwner,
        topUID = ownerUID podOwner, APP = None\<rparr>, None),
      [Warned (ownerKind podOwner) (Namespace pod) (Name pod)])"
  by (cases "ownerAPIVersion podOwner = appsv1_GroupVersion")
     (simp_all add: GetPodTopController_def Let_def)

text \<open>
  A failed fetch is never hidden: if a call recorded in the trace is one the client
  answers with an error, that error, wrapped with the pod's namespace and name, is what
  the function returns.
\<close>

lemma fetch_failure:
  assumes ev: "Fetched resource namespace name \<in> set (snd (GetPodTopController client pod))"
    and fail: "client resource namespace name = Inl err"
  shows "fst (GetPodTopController client pod) =
           (zeroPodTopController, Some (OwnerLookupFailed (Namespace pod) (Name pod) err))"
proof (cases "GetControllerOf pod")
  case None
  then show ?thesis using ev by (simp add: top_no_owner)
next
  case (Some podOwner)
  show ?thesis
  proof (cases "ownerAPIVersion podOwner = appsv1_GroupVersion
                \<or> ownerAPIVersion podOwner = batchv1_GroupVersion")
    case False
    then show ?thesis using ev Some by (simp add: top_third_party)
  next
    case supported: True
    consider (rs) "ownerKind podOwner = KindReplicaSet"
      | (job) "ownerKind podOwner = KindJob"
      | (ds) "ownerKind podOwner = KindDaemonSet"
      | (sts) "ownerKind podOwner = KindStatefulSet"
      | (other) "ownerKind podOwner \<noteq> KindReplicaSet" "ownerKind podOwner \<noteq> KindJob"
          "ownerKind podOwner \<noteq> KindDaemonSet" "ownerKind podOwner \<noteq> KindStatefulSet"
      by blast
    then show ?thesis
    proof cases
      case rs
      show ?thesis
      proof (cases "client ReplicaSets (Namespace pod) (ownerName podOwner)")
        case (Inl e)
        then show ?thesis
          using top_replicaset_failed [where client = client, OF Some supported rs Inl] ev fail by auto
      next
        case (Inr replicaset)
        show ?thesis
        proof (cases "GetControllerOf replicaset")
          case None
          then show ?thesis
            using top_replicaset_alone [where client = client, OF Some supported rs Inr None] ev fail Inr by auto
        next
          case inner: (Some replicasetOwner)
          show ?thesis
          proof (cases "ownerKind replicasetOwner = KindDeployment")
            case False
            then show ?thesis
              using top_replicaset_unknown_owner [where client = client, OF Some supported rs Inr inner False]
                ev fail Inr by auto
          next
            case True
            show ?thesis
            proof (cases "client Deployments (Namespace replicaset) (ownerName replicasetOwner)")
              case failed: (Inl e)
              then show ?thesis
                using top_deployment_failed [where client = client, OF Some supported rs Inr inner True failed]
                  ev fail Inr by auto
            next
              case fetched: (Inr deployment)
              then show ?thesis
                using top_deployment [where client = client, OF Some supported rs Inr inner True fetched]
                  ev fail Inr by auto
            qed
          qed
        qed
      qed
    next
      case job
      show ?thesis
      proof (cases "client Jobs (Namespace pod) (ownerName podOwner)")
        case (Inl e)
        then show ?thesis
          using top_job_failed [where client = client, OF Some supported job Inl] ev fail by auto
      next
        case (Inr jobObject)
        show ?thesis
        proof (cases "GetControllerOf jobObject")
          case None
          then show ?thesis
            using top_job_alone [where client = client, OF Some supported job Inr None] ev fail Inr by auto
        next
          case inner: (Some jobOwner)
          show ?thesis
          proof (cases "ownerKind jobOwner = KindCronJob")
            case False
            then show ?thesis
              using top_job_unknown_owner [where client = client, OF Some supported job Inr inner False]
                ev fail Inr by auto
          next
            case True
            show ?thesis
            proof (cases "client CronJobs (Namespace jobObject) (ownerName jobOwner)")
              case failed: (Inl e)
              then show ?thesis
                using top_cronjob_failed [where client = client, OF Some supported job Inr inner True failed]
                  ev fail Inr by auto
            next
              case fetched: (Inr cronJob)
              then show ?thesis
                using top_cronjob [where client = client, OF Some supported job Inr inner True fetched]
                  ev fail Inr by auto
            qed
          qed
        qed
      qed
    next
      case ds
      show ?thesis
      proof (cases "client DaemonSets (Namespace pod) (ownerName podOwner)")
        case (Inl e)
        then show ?thesis
          using top_daemonset_failed [where client = client, OF Some supported ds Inl] ev fail by auto
      next
        case (Inr daemonSet)
        then show ?thesis
          using top_daemonset [where client = client, OF Some supported ds Inr] ev fail by auto
      qed
    next
      case sts
      show ?thesis
      proof (cases "client StatefulSets (Namespace pod) (ownerName podOwner)")
        case (Inl e)
        then show ?thesis
          using top_statefulset_failed [where client = client, OF Some supported sts Inl] ev fail by auto
      next
        case (Inr statefulSet)
        then show ?thesis
          using top_statefulset [where client = client, OF Some supported sts Inr] ev fail by auto
      qed
    next
      case other
      then show ?thesis
        using top_other_kind [where client = client, OF Some supported other] ev by simp
    qed
  qed
qed

lemma zero_not_unknown: "topKind zeroPodTopController \<noteq> KindUnknown"
  by (simp add: zeroPodTopController_def KindUnknown_def)

lemma apiGroup_apps: "apiGroup appsv1_GroupVersion = ''apps''"
  by (simp add: apiGroup_def appsv1_GroupVersion_def strings_Cut_def)

lemma apiGroup_batch: "apiGroup batchv1_GroupVersion = ''batch''"
  by (simp add: apiGroup_def batchv1_GroupVersion_def strings_Cut_def)

lemma other_group:
  "apiGroup v \<noteq> ''apps'' \<Longrightarrow> apiGroup v \<noteq> ''batch'' \<Longrightarrow>
   v \<noteq> appsv1_GroupVersion \<and> v \<noteq> batchv1_GroupVersion"
  using apiGroup_apps apiGroup_batch by auto

lemma GetControllerOf_find:
  "GetControllerOf controllee =
     find (\<lambda>ref. ownerController ref = Some True) (OwnerReferences controllee)"
  unfolding GetControllerOf_def by (rule find_cong) auto

lemmas example_cluster_defs =
  exampleClient_def exampleObject_def controllerRef_def deploymentWeb_def replicasetWeb_def
  podWeb_def daemonsetAgent_def podAgent_def replicasetCanary_def podCanary_def jobImport_def
  podImport_def podThirdParty_def podBare_def podOrphan_def podOldVersion_def
  replicasetLost_def podLost_def jobNightly_def podNightly_def podJobGone_def
  podDaemonGone_def podStatefulTimeout_def GetControllerOf_find
  appsv1_GroupVersion_def batchv1_GroupVersion_def Kind_defs

section \<open>The top controller of a pod: the owner chain\<close>

text \<open>
  C4, where the claim fails. The claim sends to \<open>Kind = Unknown\<close> the owners of an API
  group other than apps and batch, and resolves a pod whose controller owner is a
  ReplicaSet owned by a Deployment to that Deployment. The code compares the whole
  \<open>apiVersion\<close> of the owner reference with \<open>apps/v1\<close> and \<open>batch/v1\<close>. The owner
  reference of this pod names the ReplicaSet of \<open>web\<close> under \<open>apps/v1beta2\<close>: the group
  is apps, the ReplicaSet and its Deployment are there to be fetched, and the result is
  \<open>Kind = Unknown\<close> with no fetch.
\<close>

theorem GetPodTopController_old_version_counterexample:
  "GetControllerOf podOldVersion
     = Some (controllerRef ''apps/v1beta2'' ''ReplicaSet'' ''web-7c9f'' ''uid-replicaset-web'')
   \<and> apiGroup ''apps/v1beta2'' = ''apps''
   \<and> exampleClient ReplicaSets ''default'' ''web-7c9f'' = Inr replicasetWeb
   \<and> GetControllerOf replicasetWeb
     = Some (controllerRef ''apps/v1'' ''Deployment'' ''web'' ''uid-deployment-web'')
   \<and> exampleClient Deployments ''default'' ''web'' = Inr deploymentWeb
   \<and> GetPodTopController exampleClient podOldVersion =
       ((\<lparr>topKind = ''Unknown'', topNamespace = ''default'', topName = ''web-7c9f'',
          topUID = ''uid-replicaset-web'', APP = None\<rparr>, None), [])"
  by (simp add: GetPodTopController_def Let_def example_cluster_defs apiGroup_def strings_Cut_def)


text \<open>
  C4, amended. A pod whose controller owner reference has the API version \<open>apps/v1\<close> or
  \<open>batch/v1\<close> and the kind ReplicaSet, when the client returns the ReplicaSet, its
  controller owner has the kind Deployment and the client returns the Deployment, resolves
  to \<open>Kind = Deployment\<close> with the namespace, name and UID of the fetched Deployment,
  which is the \<open>APP\<close>. With such an API version and the kind DaemonSet, when the client
  returns the DaemonSet, the pod resolves to \<open>Kind = DaemonSet\<close> with the DaemonSet's
  identity. A pod whose controller owner reference has any other API version, so every
  API group other than apps and batch, and also another version of these two groups,
  resolves to \<open>Kind = Unknown\<close> with the pod's namespace and the owner's name and UID,
  with no fetch (the trace is empty). A pod with no controller owner resolves to
  \<open>Kind = Pod\<close> with the pod itself as \<open>APP\<close>.
\<close>

theorem GetPodTopController_resolution:
  "(GetControllerOf pod = Some podOwner
      \<and> (ownerAPIVersion podOwner = appsv1_GroupVersion
          \<or> ownerAPIVersion podOwner = batchv1_GroupVersion)
      \<and> ownerKind podOwner = KindReplicaSet
      \<and> client ReplicaSets (Namespace pod) (ownerName podOwner) = Inr replicaset
      \<and> GetControllerOf replicaset = Some replicasetOwner
      \<and> ownerKind replicasetOwner = KindDeployment
      \<and> client Deployments (Namespace replicaset) (ownerName replicasetOwner) = Inr deployment
    \<longrightarrow> fst (GetPodTopController client pod) =
          (\<lparr>topKind = KindDeployment, topNamespace = Namespace deployment,
            topName = Name deployment, topUID = UID deployment,
            APP = Some (AppDeployment deployment)\<rparr>, None))
   \<and> (GetControllerOf pod = Some podOwner
      \<and> (ownerAPIVersion podOwner = appsv1_GroupVersion
          \<or> ownerAPIVersion podOwner = batchv1_GroupVersion)
      \<and> ownerKind podOwner = KindDaemonSet
      \<and> client DaemonSets (Namespace pod) (ownerName podOwner) = Inr daemonSet
    \<longrightarrow> fst (GetPodTopController client pod) =
          (\<lparr>topKind = KindDaemonSet, topNamespace = Namespace daemonSet,
            topName = Name daemonSet, topUID = UID daemonSet,
            APP = Some (AppDaemonSet daemonSet)\<rparr>, None))
   \<and> (GetControllerOf pod = Some podOwner
      \<and> ownerAPIVersion podOwner \<noteq> appsv1_GroupVersion
      \<and> ownerAPIVersion podOwner \<noteq> batchv1_GroupVersion
    \<longrightarrow> GetPodTopController client pod =
          ((\<lparr>topKind = KindUnknown, topNamespace = Namespace pod, topName = ownerName podOwner,
             topUID = ownerUID podOwner, APP = None\<rparr>, None), []))
   \<and> (GetControllerOf pod = Some podOwner
      \<and> apiGroup (ownerAPIVersion podOwner) \<noteq> ''apps''
      \<and> apiGroup (ownerAPIVersion podOwner) \<noteq> ''batch''
    \<longrightarrow> GetPodTopController client pod =
          ((\<lparr>topKind = KindUnknown, topNamespace = Namespace pod, topName = ownerName podOwner,
             topUID = ownerUID podOwner, APP = None\<rparr>, None), []))
   \<and> (GetControllerOf pod = None
    \<longrightarrow> GetPodTopController client pod =
          ((\<lparr>topKind = KindPod, topNamespace = Namespace pod, topName = Name pod,
             topUID = UID pod, APP = Some (AppPod pod)\<rparr>, None), []))"
proof (intro conjI impI)
  assume "GetControllerOf pod = Some podOwner
      \<and> (ownerAPIVersion podOwner = appsv1_GroupVersion
          \<or> ownerAPIVersion podOwner = batchv1_GroupVersion)
      \<and> ownerKind podOwner = KindReplicaSet
      \<and> client ReplicaSets (Namespace pod) (ownerName podOwner) = Inr replicaset
      \<and> GetControllerOf replicaset = Some replicasetOwner
      \<and> ownerKind replicasetOwner = KindDeployment
      \<and> client Deployments (Namespace replicaset) (ownerName replicasetOwner) = Inr deployment"
  then show "fst (GetPodTopController client pod) =
          (\<lparr>topKind = KindDeployment, topNamespace = Namespace deployment,
            topName = Name deployment, topUID = UID deployment,
            APP = Some (AppDeployment deployment)\<rparr>, None)"
    using top_deployment [where client = client] by simp
next
  assume "GetControllerOf pod = Some podOwner
      \<and> (ownerAPIVersion podOwner = appsv1_GroupVersion
          \<or> ownerAPIVersion podOwner = batchv1_GroupVersion)
      \<and> ownerKind podOwner = KindDaemonSet
      \<and> client DaemonSets (Namespace pod) (ownerName podOwner) = Inr daemonSet"
  then show "fst (GetPodTopController client pod) =
          (\<lparr>topKind = KindDaemonSet, topNamespace = Namespace daemonSet,
            topName = Name daemonSet, topUID = UID daemonSet,
            APP = Some (AppDaemonSet daemonSet)\<rparr>, None)"
    using top_daemonset [where client = client] by simp
next
  assume "GetControllerOf pod = Some podOwner
      \<and> ownerAPIVersion podOwner \<noteq> appsv1_GroupVersion
      \<and> ownerAPIVersion podOwner \<noteq> batchv1_GroupVersion"
  then show "GetPodTopController client pod =
          ((\<lparr>topKind = KindUnknown, topNamespace = Namespace pod, topName = ownerName podOwner,
             topUID = ownerUID podOwner, APP = None\<rparr>, None), [])"
    by (simp add: top_third_party)
next
  assume "GetControllerOf pod = Some podOwner
      \<and> apiGroup (ownerAPIVersion podOwner) \<noteq> ''apps''
      \<and> apiGroup (ownerAPIVersion podOwner) \<noteq> ''batch''"
  then show "GetPodTopController client pod =
          ((\<lparr>topKind = KindUnknown, topNamespace = Namespace pod, topName = ownerName podOwner,
             topUID = ownerUID podOwner, APP = None\<rparr>, None), [])"
    using other_group [of "ownerAPIVersion podOwner"] by (simp add: top_third_party)
next
  assume "GetControllerOf pod = None"
  then show "GetPodTopController client pod =
          ((\<lparr>topKind = KindPod, topNamespace = Namespace pod, topName = Name pod,
             topUID = UID pod, APP = Some (AppPod pod)\<rparr>, None), [])"
    by (rule top_no_owner)
qed

theorem GetPodTopController_resolution_witness:
  "fst (GetPodTopController exampleClient podWeb) =
     (\<lparr>topKind = ''Deployment'', topNamespace = ''default'', topName = ''web'',
       topUID = ''uid-deployment-web'', APP = Some (AppDeployment deploymentWeb)\<rparr>, None)
   \<and> fst (GetPodTopController exampleClient podAgent) =
     (\<lparr>topKind = ''DaemonSet'', topNamespace = ''default'', topName = ''agent'',
       topUID = ''uid-daemonset-agent'', APP = Some (AppDaemonSet daemonsetAgent)\<rparr>, None)
   \<and> GetPodTopController exampleClient podThirdParty =
     ((\<lparr>topKind = ''Unknown'', topNamespace = ''default'', topName = ''game'',
        topUID = ''uid-kruise-game'', APP = None\<rparr>, None), [])
   \<and> GetPodTopController exampleClient podBare =
     ((\<lparr>topKind = ''Pod'', topNamespace = ''default'', topName = ''debug'',
        topUID = ''uid-pod-debug'', APP = Some (AppPod podBare)\<rparr>, None), [])
   \<and> GetPodTopController exampleClient podOldVersion =
     ((\<lparr>topKind = ''Unknown'', topNamespace = ''default'', topName = ''web-7c9f'',
        topUID = ''uid-replicaset-web'', APP = None\<rparr>, None), [])"
proof -
  have old_version: "GetPodTopController exampleClient podOldVersion =
     ((\<lparr>topKind = ''Unknown'', topNamespace = ''default'', topName = ''web-7c9f'',
        topUID = ''uid-replicaset-web'', APP = None\<rparr>, None), [])"
    using GetPodTopController_resolution
      [where pod = podOldVersion and client = exampleClient
         and podOwner = "controllerRef ''apps/v1beta2'' ''ReplicaSet'' ''web-7c9f''
                           ''uid-replicaset-web''"]
    by (simp add: example_cluster_defs)
  have web: "fst (GetPodTopController exampleClient podWeb) =
     (\<lparr>topKind = ''Deployment'', topNamespace = ''default'', topName = ''web'',
       topUID = ''uid-deployment-web'', APP = Some (AppDeployment deploymentWeb)\<rparr>, None)"
    using GetPodTopController_resolution
      [where pod = podWeb and client = exampleClient
         and podOwner = "controllerRef ''apps/v1'' ''ReplicaSet'' ''web-7c9f'' ''uid-replicaset-web''"
         and replicaset = replicasetWeb
         and replicasetOwner = "controllerRef ''apps/v1'' ''Deployment'' ''web'' ''uid-deployment-web''"
         and deployment = deploymentWeb]
    by (simp add: example_cluster_defs)
  have agent: "fst (GetPodTopController exampleClient podAgent) =
     (\<lparr>topKind = ''DaemonSet'', topNamespace = ''default'', topName = ''agent'',
       topUID = ''uid-daemonset-agent'', APP = Some (AppDaemonSet daemonsetAgent)\<rparr>, None)"
    using GetPodTopController_resolution
      [where pod = podAgent and client = exampleClient
         and podOwner = "controllerRef ''apps/v1'' ''DaemonSet'' ''agent'' ''uid-daemonset-agent''"
         and daemonSet = daemonsetAgent]
    by (simp add: example_cluster_defs)
  have third: "GetPodTopController exampleClient podThirdParty =
     ((\<lparr>topKind = ''Unknown'', topNamespace = ''default'', topName = ''game'',
        topUID = ''uid-kruise-game'', APP = None\<rparr>, None), [])"
    using GetPodTopController_resolution
      [where pod = podThirdParty and client = exampleClient
         and podOwner = "controllerRef ''apps.kruise.io/v1beta1'' ''StatefulSet'' ''game''
                           ''uid-kruise-game''"]
    by (simp add: example_cluster_defs apiGroup_def strings_Cut_def)
  have bare: "GetPodTopController exampleClient podBare =
     ((\<lparr>topKind = ''Pod'', topNamespace = ''default'', topName = ''debug'',
        topUID = ''uid-pod-debug'', APP = Some (AppPod podBare)\<rparr>, None), [])"
    using GetPodTopController_resolution [where pod = podBare and client = exampleClient]
    by (simp add: example_cluster_defs)
  from web agent third bare old_version show ?thesis by simp
qed

section \<open>The top controller of a pod: failed fetches and unknown owners\<close>

text \<open>
  C8. Each of the six fetches of an owner, when the client answers it with an error
  (the object is not found, or the API fails), makes the function return the zero
  \<open>PodTopController\<close>, whose kind is not \<open>Unknown\<close>, and the error that wraps the
  client's error with the namespace and name of the pod: the ReplicaSet, Job, DaemonSet
  or StatefulSet that owns the pod, the Deployment that owns the ReplicaSet, the CronJob
  that owns the Job. Conversely a ReplicaSet whose controller owner is not a Deployment,
  and a Job whose controller owner is not a CronJob, give \<open>Kind = Unknown\<close> with a nil
  error, after one fetch and one warning.
\<close>

theorem GetPodTopController_fetch_failures:
  "(GetControllerOf pod = Some podOwner
      \<and> (ownerAPIVersion podOwner = appsv1_GroupVersion
          \<or> ownerAPIVersion podOwner = batchv1_GroupVersion)
      \<and> ownerKind podOwner = KindReplicaSet
      \<and> (client :: 'b Client) ReplicaSets (Namespace pod) (ownerName podOwner) = Inl err
    \<longrightarrow> GetPodTopController client pod =
          ((zeroPodTopController, Some (OwnerLookupFailed (Namespace pod) (Name pod) err)),
           [Fetched ReplicaSets (Namespace pod) (ownerName podOwner)]))
   \<and> (GetControllerOf pod = Some podOwner
      \<and> (ownerAPIVersion podOwner = appsv1_GroupVersion
          \<or> ownerAPIVersion podOwner = batchv1_GroupVersion)
      \<and> ownerKind podOwner = KindReplicaSet
      \<and> client ReplicaSets (Namespace pod) (ownerName podOwner) = Inr replicaset
      \<and> GetControllerOf replicaset = Some replicasetOwner
      \<and> ownerKind replicasetOwner = KindDeployment
      \<and> client Deployments (Namespace replicaset) (ownerName replicasetOwner) = Inl err
    \<longrightarrow> GetPodTopController client pod =
          ((zeroPodTopController, Some (OwnerLookupFailed (Namespace pod) (Name pod) err)),
           [Fetched ReplicaSets (Namespace pod) (ownerName podOwner),
            Fetched Deployments (Namespace replicaset) (ownerName replicasetOwner)]))
   \<and> (GetControllerOf pod = Some podOwner
      \<and> (ownerAPIVersion podOwner = appsv1_GroupVersion
          \<or> ownerAPIVersion podOwner = batchv1_GroupVersion)
      \<and> ownerKind podOwner = KindJob
      \<and> client Jobs (Namespace pod) (ownerName podOwner) = Inl err
    \<longrightarrow> GetPodTopController client pod =
          ((zeroPodTopController, Some (OwnerLookupFailed (Namespace pod) (Name pod) err)),
           [Fetched Jobs (Namespace pod) (ownerName podOwner)]))
   \<and> (GetControllerOf pod = Some podOwner
      \<and> (ownerAPIVersion podOwner = appsv1_GroupVersion
          \<or> ownerAPIVersion podOwner = batchv1_GroupVersion)
      \<and> ownerKind podOwner = KindJob
      \<and> client Jobs (Namespace pod) (ownerName podOwner) = Inr job
      \<and> GetControllerOf job = Some jobOwner
      \<and> ownerKind jobOwner = KindCronJob
      \<and> client CronJobs (Namespace job) (ownerName jobOwner) = Inl err
    \<longrightarrow> GetPodTopController client pod =
          ((zeroPodTopController, Some (OwnerLookupFailed (Namespace pod) (Name pod) err)),
           [Fetched Jobs (Namespace pod) (ownerName podOwner),
            Fetched CronJobs (Namespace job) (ownerName jobOwner)]))
   \<and> (GetControllerOf pod = Some podOwner
      \<and> (ownerAPIVersion podOwner = appsv1_GroupVersion
          \<or> ownerAPIVersion podOwner = batchv1_GroupVersion)
      \<and> ownerKind podOwner = KindDaemonSet
      \<and> client DaemonSets (Namespace pod) (ownerName podOwner) = Inl err
    \<longrightarrow> GetPodTopController client pod =
          ((zeroPodTopController, Some (OwnerLookupFailed (Namespace pod) (Name pod) err)),
           [Fetched DaemonSets (Namespace pod) (ownerName podOwner)]))
   \<and> (GetControllerOf pod = Some podOwner
      \<and> (ownerAPIVersion podOwner = appsv1_GroupVersion
          \<or> ownerAPIVersion podOwner = batchv1_GroupVersion)
      \<and> ownerKind podOwner = KindStatefulSet
      \<and> client StatefulSets (Namespace pod) (ownerName podOwner) = Inl err
    \<longrightarrow> GetPodTopController client pod =
          ((zeroPodTopController, Some (OwnerLookupFailed (Namespace pod) (Name pod) err)),
           [Fetched StatefulSets (Namespace pod) (ownerName podOwner)]))
   \<and> topKind (zeroPodTopController :: 'b PodTopController) \<noteq> KindUnknown
   \<and> (GetControllerOf pod = Some podOwner
      \<and> (ownerAPIVersion podOwner = appsv1_GroupVersion
          \<or> ownerAPIVersion podOwner = batchv1_GroupVersion)
      \<and> ownerKind podOwner = KindReplicaSet
      \<and> client ReplicaSets (Namespace pod) (ownerName podOwner) = Inr replicaset
      \<and> GetControllerOf replicaset = Some replicasetOwner
      \<and> ownerKind replicasetOwner \<noteq> KindDeployment
    \<longrightarrow> GetPodTopController client pod =
          ((\<lparr>topKind = KindUnknown, topNamespace = Namespace pod,
             topName = ownerName replicasetOwner, topUID = ownerUID replicasetOwner,
             APP = None\<rparr>, None),
           [Fetched ReplicaSets (Namespace pod) (ownerName podOwner),
            Warned (ownerKind replicasetOwner) (Namespace pod) (Name pod)]))
   \<and> (GetControllerOf pod = Some podOwner
      \<and> (ownerAPIVersion podOwner = appsv1_GroupVersion
          \<or> ownerAPIVersion podOwner = batchv1_GroupVersion)
      \<and> ownerKind podOwner = KindJob
      \<and> client Jobs (Namespace pod) (ownerName podOwner) = Inr job
      \<and> GetControllerOf job = Some jobOwner
      \<and> ownerKind jobOwner \<noteq> KindCronJob
    \<longrightarrow> GetPodTopController client pod =
          ((\<lparr>topKind = KindUnknown, topNamespace = Namespace job,
             topName = ownerName jobOwner, topUID = ownerUID jobOwner, APP = None\<rparr>, None),
           [Fetched Jobs (Namespace pod) (ownerName podOwner),
            Warned (ownerKind jobOwner) (Namespace pod) (Name pod)]))"
proof (intro conjI impI)
  assume "GetControllerOf pod = Some podOwner
      \<and> (ownerAPIVersion podOwner = appsv1_GroupVersion
          \<or> ownerAPIVersion podOwner = batchv1_GroupVersion)
      \<and> ownerKind podOwner = KindReplicaSet
      \<and> client ReplicaSets (Namespace pod) (ownerName podOwner) = Inl err"
  then show "GetPodTopController client pod =
          ((zeroPodTopController, Some (OwnerLookupFailed (Namespace pod) (Name pod) err)),
           [Fetched ReplicaSets (Namespace pod) (ownerName podOwner)])"
    using top_replicaset_failed [where client = client] by simp
next
  assume "GetControllerOf pod = Some podOwner
      \<and> (ownerAPIVersion podOwner = appsv1_GroupVersion
          \<or> ownerAPIVersion podOwner = batchv1_GroupVersion)
      \<and> ownerKind podOwner = KindReplicaSet
      \<and> client ReplicaSets (Namespace pod) (ownerName podOwner) = Inr replicaset
      \<and> GetControllerOf replicaset = Some replicasetOwner
      \<and> ownerKind replicasetOwner = KindDeployment
      \<and> client Deployments (Namespace replicaset) (ownerName replicasetOwner) = Inl err"
  then show "GetPodTopController client pod =
          ((zeroPodTopController, Some (OwnerLookupFailed (Namespace pod) (Name pod) err)),
           [Fetched ReplicaSets (Namespace pod) (ownerName podOwner),
            Fetched Deployments (Namespace replicaset) (ownerName replicasetOwner)])"
    using top_deployment_failed [where client = client] by simp
next
  assume "GetControllerOf pod = Some podOwner
      \<and> (ownerAPIVersion podOwner = appsv1_GroupVersion
          \<or> ownerAPIVersion podOwner = batchv1_GroupVersion)
      \<and> ownerKind podOwner = KindJob
      \<and> client Jobs (Namespace pod) (ownerName podOwner) = Inl err"
  then show "GetPodTopController client pod =
          ((zeroPodTopController, Some (OwnerLookupFailed (Namespace pod) (Name pod) err)),
           [Fetched Jobs (Namespace pod) (ownerName podOwner)])"
    using top_job_failed [where client = client] by simp
next
  assume "GetControllerOf pod = Some podOwner
      \<and> (ownerAPIVersion podOwner = appsv1_GroupVersion
          \<or> ownerAPIVersion podOwner = batchv1_GroupVersion)
      \<and> ownerKind podOwner = KindJob
      \<and> client Jobs (Namespace pod) (ownerName podOwner) = Inr job
      \<and> GetControllerOf job = Some jobOwner
      \<and> ownerKind jobOwner = KindCronJob
      \<and> client CronJobs (Namespace job) (ownerName jobOwner) = Inl err"
  then show "GetPodTopController client pod =
          ((zeroPodTopController, Some (OwnerLookupFailed (Namespace pod) (Name pod) err)),
           [Fetched Jobs (Namespace pod) (ownerName podOwner),
            Fetched CronJobs (Namespace job) (ownerName jobOwner)])"
    using top_cronjob_failed [where client = client] by simp
next
  assume "GetControllerOf pod = Some podOwner
      \<and> (ownerAPIVersion podOwner = appsv1_GroupVersion
          \<or> ownerAPIVersion podOwner = batchv1_GroupVersion)
      \<and> ownerKind podOwner = KindDaemonSet
      \<and> client DaemonSets (Namespace pod) (ownerName podOwner) = Inl err"
  then show "GetPodTopController client pod =
          ((zeroPodTopController, Some (OwnerLookupFailed (Namespace pod) (Name pod) err)),
           [Fetched DaemonSets (Namespace pod) (ownerName podOwner)])"
    using top_daemonset_failed [where client = client] by simp
next
  assume "GetControllerOf pod = Some podOwner
      \<and> (ownerAPIVersion podOwner = appsv1_GroupVersion
          \<or> ownerAPIVersion podOwner = batchv1_GroupVersion)
      \<and> ownerKind podOwner = KindStatefulSet
      \<and> client StatefulSets (Namespace pod) (ownerName podOwner) = Inl err"
  then show "GetPodTopController client pod =
          ((zeroPodTopController, Some (OwnerLookupFailed (Namespace pod) (Name pod) err)),
           [Fetched StatefulSets (Namespace pod) (ownerName podOwner)])"
    using top_statefulset_failed [where client = client] by simp
next
  show "topKind (zeroPodTopController :: 'b PodTopController) \<noteq> KindUnknown"
    by (rule zero_not_unknown)
next
  assume "GetControllerOf pod = Some podOwner
      \<and> (ownerAPIVersion podOwner = appsv1_GroupVersion
          \<or> ownerAPIVersion podOwner = batchv1_GroupVersion)
      \<and> ownerKind podOwner = KindReplicaSet
      \<and> client ReplicaSets (Namespace pod) (ownerName podOwner) = Inr replicaset
      \<and> GetControllerOf replicaset = Some replicasetOwner
      \<and> ownerKind replicasetOwner \<noteq> KindDeployment"
  then show "GetPodTopController client pod =
          ((\<lparr>topKind = KindUnknown, topNamespace = Namespace pod,
             topName = ownerName replicasetOwner, topUID = ownerUID replicasetOwner,
             APP = None\<rparr>, None),
           [Fetched ReplicaSets (Namespace pod) (ownerName podOwner),
            Warned (ownerKind replicasetOwner) (Namespace pod) (Name pod)])"
    using top_replicaset_unknown_owner [where client = client] by simp
next
  assume "GetControllerOf pod = Some podOwner
      \<and> (ownerAPIVersion podOwner = appsv1_GroupVersion
          \<or> ownerAPIVersion podOwner = batchv1_GroupVersion)
      \<and> ownerKind podOwner = KindJob
      \<and> client Jobs (Namespace pod) (ownerName podOwner) = Inr job
      \<and> GetControllerOf job = Some jobOwner
      \<and> ownerKind jobOwner \<noteq> KindCronJob"
  then show "GetPodTopController client pod =
          ((\<lparr>topKind = KindUnknown, topNamespace = Namespace job,
             topName = ownerName jobOwner, topUID = ownerUID jobOwner, APP = None\<rparr>, None),
           [Fetched Jobs (Namespace pod) (ownerName podOwner),
            Warned (ownerKind jobOwner) (Namespace pod) (Name pod)])"
    using top_job_unknown_owner [where client = client] by simp
qed

theorem GetPodTopController_fetch_failures_witness:
  "GetPodTopController exampleClient podOrphan =
     ((zeroPodTopController, Some (OwnerLookupFailed ''default'' ''gone-1-q'' NotFound)),
      [Fetched ReplicaSets ''default'' ''gone-1''])
   \<and> GetPodTopController exampleClient podLost =
     ((zeroPodTopController, Some (OwnerLookupFailed ''default'' ''lost-1-p'' NotFound)),
      [Fetched ReplicaSets ''default'' ''lost-1'', Fetched Deployments ''default'' ''lost''])
   \<and> GetPodTopController exampleClient podJobGone =
     ((zeroPodTopController, Some (OwnerLookupFailed ''default'' ''once-p'' NotFound)),
      [Fetched Jobs ''default'' ''once''])
   \<and> GetPodTopController exampleClient podNightly =
     ((zeroPodTopController, Some (OwnerLookupFailed ''default'' ''nightly-1-p'' NotFound)),
      [Fetched Jobs ''default'' ''nightly-1'', Fetched CronJobs ''default'' ''nightly''])
   \<and> GetPodTopController exampleClient podDaemonGone =
     ((zeroPodTopController, Some (OwnerLookupFailed ''default'' ''probe-p'' NotFound)),
      [Fetched DaemonSets ''default'' ''probe''])
   \<and> GetPodTopController exampleClient podStatefulTimeout =
     ((zeroPodTopController,
       Some (OwnerLookupFailed ''default'' ''db-0''
               (APIError ''etcdserver: request timed out''))),
      [Fetched StatefulSets ''default'' ''db''])
   \<and> topKind (zeroPodTopController :: string PodTopController) \<noteq> ''Unknown''
   \<and> GetPodTopController exampleClient podCanary =
       ((\<lparr>topKind = ''Unknown'', topNamespace = ''default'', topName = ''canary'',
          topUID = ''uid-rollout-canary'', APP = None\<rparr>, None),
        [Fetched ReplicaSets ''default'' ''canary-5f'',
         Warned ''Rollout'' ''default'' ''canary-5f-abc''])
   \<and> GetPodTopController exampleClient podImport =
       ((\<lparr>topKind = ''Unknown'', topNamespace = ''default'', topName = ''import'',
          topUID = ''uid-workflow-import'', APP = None\<rparr>, None),
        [Fetched Jobs ''default'' ''import-1'',
         Warned ''Workflow'' ''default'' ''import-1-zz''])"
proof -
  have orphan: "GetPodTopController exampleClient podOrphan =
     ((zeroPodTopController, Some (OwnerLookupFailed ''default'' ''gone-1-q'' NotFound)),
      [Fetched ReplicaSets ''default'' ''gone-1''])"
    using GetPodTopController_fetch_failures
      [where pod = podOrphan and client = exampleClient and err = NotFound
         and podOwner = "controllerRef ''apps/v1'' ''ReplicaSet'' ''gone-1''
                           ''uid-replicaset-gone''"]
    by (simp add: example_cluster_defs)
  have lost: "GetPodTopController exampleClient podLost =
     ((zeroPodTopController, Some (OwnerLookupFailed ''default'' ''lost-1-p'' NotFound)),
      [Fetched ReplicaSets ''default'' ''lost-1'', Fetched Deployments ''default'' ''lost''])"
    using GetPodTopController_fetch_failures
      [where pod = podLost and client = exampleClient and err = NotFound
         and podOwner = "controllerRef ''apps/v1'' ''ReplicaSet'' ''lost-1''
                           ''uid-replicaset-lost''"
         and replicaset = replicasetLost
         and replicasetOwner = "controllerRef ''apps/v1'' ''Deployment'' ''lost''
                                  ''uid-deployment-lost''"]
    by (simp add: example_cluster_defs)
  have job_gone: "GetPodTopController exampleClient podJobGone =
     ((zeroPodTopController, Some (OwnerLookupFailed ''default'' ''once-p'' NotFound)),
      [Fetched Jobs ''default'' ''once''])"
    using GetPodTopController_fetch_failures
      [where pod = podJobGone and client = exampleClient and err = NotFound
         and podOwner = "controllerRef ''batch/v1'' ''Job'' ''once'' ''uid-job-once''"]
    by (simp add: example_cluster_defs)
  have nightly: "GetPodTopController exampleClient podNightly =
     ((zeroPodTopController, Some (OwnerLookupFailed ''default'' ''nightly-1-p'' NotFound)),
      [Fetched Jobs ''default'' ''nightly-1'', Fetched CronJobs ''default'' ''nightly''])"
    using GetPodTopController_fetch_failures
      [where pod = podNightly and client = exampleClient and err = NotFound
         and podOwner = "controllerRef ''batch/v1'' ''Job'' ''nightly-1'' ''uid-job-nightly''"
         and job = jobNightly
         and jobOwner = "controllerRef ''batch/v1'' ''CronJob'' ''nightly''
                           ''uid-cronjob-nightly''"]
    by (simp add: example_cluster_defs)
  have daemon_gone: "GetPodTopController exampleClient podDaemonGone =
     ((zeroPodTopController, Some (OwnerLookupFailed ''default'' ''probe-p'' NotFound)),
      [Fetched DaemonSets ''default'' ''probe''])"
    using GetPodTopController_fetch_failures
      [where pod = podDaemonGone and client = exampleClient and err = NotFound
         and podOwner = "controllerRef ''apps/v1'' ''DaemonSet'' ''probe''
                           ''uid-daemonset-probe''"]
    by (simp add: example_cluster_defs)
  have timeout: "GetPodTopController exampleClient podStatefulTimeout =
     ((zeroPodTopController,
       Some (OwnerLookupFailed ''default'' ''db-0''
               (APIError ''etcdserver: request timed out''))),
      [Fetched StatefulSets ''default'' ''db''])"
    using GetPodTopController_fetch_failures
      [where pod = podStatefulTimeout and client = exampleClient
         and err = "APIError ''etcdserver: request timed out''"
         and podOwner = "controllerRef ''apps/v1'' ''StatefulSet'' ''db''
                           ''uid-statefulset-db''"]
    by (simp add: example_cluster_defs)
  have zero: "topKind (zeroPodTopController :: string PodTopController) \<noteq> ''Unknown''"
    using GetPodTopController_fetch_failures [where client = exampleClient]
    by (simp add: KindUnknown_def)
  have canary: "GetPodTopController exampleClient podCanary =
       ((\<lparr>topKind = ''Unknown'', topNamespace = ''default'', topName = ''canary'',
          topUID = ''uid-rollout-canary'', APP = None\<rparr>, None),
        [Fetched ReplicaSets ''default'' ''canary-5f'',
         Warned ''Rollout'' ''default'' ''canary-5f-abc''])"
    using GetPodTopController_fetch_failures
      [where pod = podCanary and client = exampleClient
         and podOwner = "controllerRef ''apps/v1'' ''ReplicaSet'' ''canary-5f''
                           ''uid-replicaset-canary''"
         and replicaset = replicasetCanary
         and replicasetOwner = "controllerRef ''argoproj.io/v1alpha1'' ''Rollout'' ''canary''
                                  ''uid-rollout-canary''"]
    by (simp add: example_cluster_defs)
  have import: "GetPodTopController exampleClient podImport =
       ((\<lparr>topKind = ''Unknown'', topNamespace = ''default'', topName = ''import'',
          topUID = ''uid-workflow-import'', APP = None\<rparr>, None),
        [Fetched Jobs ''default'' ''import-1'',
         Warned ''Workflow'' ''default'' ''import-1-zz''])"
    using GetPodTopController_fetch_failures
      [where pod = podImport and client = exampleClient
         and podOwner = "controllerRef ''batch/v1'' ''Job'' ''import-1'' ''uid-job-import''"
         and job = jobImport
         and jobOwner = "controllerRef ''argoproj.io/v1alpha1'' ''Workflow'' ''import''
                           ''uid-workflow-import''"]
    by (simp add: example_cluster_defs)
  from orphan lost job_gone nightly daemon_gone timeout zero canary import
  show ?thesis by blast
qed

section \<open>The validating webhook on update\<close>

text \<open>
  C5, where the claim fails. The claim forbids, while a deletion is pending, any change of
  a field other than the removal of the finalizer. The code looks at the new object only:
  once the new object has a deletion timestamp and no finalizer, the update is admitted,
  whatever else it changes. Here the update removes the finalizer and changes the body,
  the structural validation would refuse it, and \<open>ValidateUpdate\<close> returns nil.
\<close>

theorem ValidateUpdate_other_change_counterexample:
  "DeletionTimestamp terminatingSubnet \<noteq> None
   \<and> DeletionTimestamp releasedAndChangedSubnet \<noteq> None
   \<and> Body releasedAndChangedSubnet \<noteq> Body terminatingSubnet
   \<and> refuseEveryUpdate terminatingSubnet releasedAndChangedSubnet \<noteq> []
   \<and> ValidateUpdate exampleFinalizer refuseEveryUpdate terminatingSubnet releasedAndChangedSubnet
       = None"
  by (simp add: ValidateUpdate_def ContainsFinalizer_def terminatingSubnet_def
      releasedAndChangedSubnet_def refuseEveryUpdate_def exampleFinalizer_def)

text \<open>
  C5, amended. When the new object carries a deletion timestamp: if it still carries the
  finalizer, the update is denied (Forbidden), whatever it changes; if it no longer
  carries the finalizer, the update is allowed, whatever else it changes (the old object
  is not compared and the structural validation is not run). When the new object carries
  no deletion timestamp, \<open>ValidateUpdate\<close> applies the structural validation: the update
  is denied (Invalid, with the field errors) when that returns errors, and allowed when
  it returns none.
\<close>

theorem ValidateUpdate_terminating:
  "(DeletionTimestamp newSubnet \<noteq> None \<and> ContainsFinalizer newSubnet SpiderFinalizer \<longrightarrow>
      ValidateUpdate SpiderFinalizer validateUpdateSubnet oldSubnet newSubnet
        = Some (Forbidden ''cannot update a terminaing Subnet''))
   \<and> (DeletionTimestamp newSubnet \<noteq> None \<and> \<not> ContainsFinalizer newSubnet SpiderFinalizer \<longrightarrow>
      ValidateUpdate SpiderFinalizer validateUpdateSubnet oldSubnet newSubnet = None)
   \<and> (DeletionTimestamp newSubnet = None \<longrightarrow>
      ValidateUpdate SpiderFinalizer validateUpdateSubnet oldSubnet newSubnet
        = (if validateUpdateSubnet oldSubnet newSubnet = [] then None
           else Some (Invalid (Name newSubnet) (validateUpdateSubnet oldSubnet newSubnet))))"
  by (simp add: ValidateUpdate_def Let_def)

theorem ValidateUpdate_terminating_witness:
  "ValidateUpdate exampleFinalizer refuseEveryUpdate terminatingSubnet
       (terminatingSubnet\<lparr>Body := ''ips: 10.0.0.1-10.0.0.5''\<rparr>)
     = Some (Forbidden ''cannot update a terminaing Subnet'')
   \<and> ValidateUpdate exampleFinalizer refuseEveryUpdate terminatingSubnet
       (terminatingSubnet\<lparr>Finalizers := []\<rparr>) = None
   \<and> ValidateUpdate exampleFinalizer refuseEveryUpdate
       (terminatingSubnet\<lparr>DeletionTimestamp := None\<rparr>)
       (terminatingSubnet\<lparr>DeletionTimestamp := None, Body := ''ips: 10.0.0.1-10.0.0.5''\<rparr>)
     = Some (Invalid ''subnet-a'' [''spec.ips: Forbidden''])"
  using
    ValidateUpdate_terminating
      [of "terminatingSubnet\<lparr>Body := ''ips: 10.0.0.1-10.0.0.5''\<rparr>" exampleFinalizer
          refuseEveryUpdate terminatingSubnet]
    ValidateUpdate_terminating
      [of "terminatingSubnet\<lparr>Finalizers := []\<rparr>" exampleFinalizer
          refuseEveryUpdate terminatingSubnet]
    ValidateUpdate_terminating
      [of "terminatingSubnet\<lparr>DeletionTimestamp := None, Body := ''ips: 10.0.0.1-10.0.0.5''\<rparr>"
          exampleFinalizer refuseEveryUpdate "terminatingSubnet\<lparr>DeletionTimestamp := None\<rparr>"]
  by (simp add: ContainsFinalizer_def terminatingSubnet_def refuseEveryUpdate_def
      exampleFinalizer_def)

end
